theory Spec2Isabelle
  imports Complex_Main
begin

text \<open>
  A shallow embedding of \<^verbatim>\<open>examples/summarization/bart/finetune.py\<close>: the layer
  selector, the freeze policy, the construction of the distiller, the per-step
  function and the distillation loss. Floating-point numbers are idealised as real
  numbers throughout; token ids and layer counts are Python integers (\<open>int\<close>).
\<close>

section \<open>Errors\<close>

text \<open>
  The exceptions the modelled code can raise. \<open>ShapeMismatch\<close> is the failure the
  weight-copying helpers report when two parameters differ in shape;
  \<open>FileNotFoundError\<close> and \<open>FileExistsError\<close> are what \<^verbatim>\<open>Path.mkdir\<close> raises.
\<close>

datatype error =
    AssertionError | KeyError | IndexError | RuntimeError | ShapeMismatch
  | FileNotFoundError | FileExistsError

section \<open>Layer selector\<close>

text \<open>
  \<^verbatim>\<open>list(range(n))\<close> for a Python integer \<open>n\<close>: the integers from \<open>0\<close> up to
  \<open>n - 1\<close>, empty when \<open>n \<le> 0\<close>.
\<close>

definition py_range :: "int \<Rightarrow> int list" where
  "py_range n = map int [0..<nat n]"

text \<open>The extended slice \<^verbatim>\<open>xs[::2]\<close>: every second element, starting with the first.\<close>

fun stride2 :: "'a list \<Rightarrow> 'a list" where
  "stride2 [] = []"
| "stride2 [x] = [x]"
| "stride2 (x # y # xs) = x # stride2 xs"

text \<open>
  The student depth of \<^verbatim>\<open>SummarizationDistiller.__init__\<close>:
  \<^verbatim>\<open>teacher.config.decoder_layers // 2\<close>. Python's \<^verbatim>\<open>//\<close> rounds towards minus
  infinity, as \<open>div\<close> on \<open>int\<close> does.
\<close>

definition student_decoder_layers :: "int \<Rightarrow> int" where
  "student_decoder_layers n = n div 2"

text \<open>
  \<^verbatim>\<open>
  if student_updates["decoder_layers"] == 6:
      layers_to_copy = [0, 2, 4, 7, 9, 11]
  else:
      layers_to_copy = list(range(teacher.config.decoder_layers))[::2]
  \<close>
\<close>

definition layers_to_copy :: "int \<Rightarrow> int list" where
  "layers_to_copy n =
     (if student_decoder_layers n = 6 then [0, 2, 4, 7, 9, 11]
      else stride2 (py_range n))"

section \<open>Tensors\<close>

text \<open>
  A tensor is its shape and its elements in row-major order. The rank is fixed by the
  type: token ids and padding masks are two-dimensional (batch \<times> sequence), logits
  are three-dimensional (batch \<times> sequence \<times> vocabulary). A well-formed tensor
  has as many elements as its shape says.
\<close>

record 'a tensor2 =
  rows :: nat
  cols :: nat
  elems2 :: "'a list"

record 'a tensor3 =
  dim0 :: nat
  dim1 :: nat
  dim2 :: nat
  elems3 :: "'a list"

definition wf2 :: "'a tensor2 \<Rightarrow> bool" where
  "wf2 t = (length (elems2 t) = rows t * cols t)"

definition wf3 :: "'a tensor3 \<Rightarrow> bool" where
  "wf3 t = (length (elems3 t) = dim0 t * dim1 t * dim2 t)"

definition at2 :: "'a tensor2 \<Rightarrow> nat \<Rightarrow> nat \<Rightarrow> 'a" where
  "at2 t r c = elems2 t ! (r * cols t + c)"

definition at3 :: "'a tensor3 \<Rightarrow> nat \<Rightarrow> nat \<Rightarrow> nat \<Rightarrow> 'a" where
  "at3 t b i v = elems3 t ! ((b * dim1 t + i) * dim2 t + v)"

text \<open>The tensor with \<open>R\<close> rows and \<open>C\<close> columns whose entry \<open>(r, c)\<close> is \<open>f r c\<close>.\<close>

definition tabulate2 :: "nat \<Rightarrow> nat \<Rightarrow> (nat \<Rightarrow> nat \<Rightarrow> 'a) \<Rightarrow> 'a tensor2" where
  "tabulate2 R C f =
     \<lparr>rows = R, cols = C, elems2 = concat (map (\<lambda>r. map (f r) [0..<C]) [0..<R])\<rparr>"

text \<open>The rows of a two-dimensional tensor, each a list of \<open>cols t\<close> elements.\<close>

definition rows_of :: "'a tensor2 \<Rightarrow> 'a list list" where
  "rows_of t = map (\<lambda>r. take (cols t) (drop (r * cols t) (elems2 t))) [0..<rows t]"

subsection \<open>Slices of the target ids\<close>

text \<open>
  \<^verbatim>\<open>y[:, :-1]\<close>: every row without its last column. A tensor with no column keeps
  its shape (the slice of an empty row is empty; \<open>cols y - 1\<close> is \<open>0\<close> on \<open>nat\<close>).
\<close>

definition drop_last_column :: "'a tensor2 \<Rightarrow> 'a tensor2" where
  "drop_last_column y = tabulate2 (rows y) (cols y - 1) (\<lambda>r c. at2 y r c)"

text \<open>\<^verbatim>\<open>y[:, 1:]\<close>: every row without its first column.\<close>

definition drop_first_column :: "'a tensor2 \<Rightarrow> 'a tensor2" where
  "drop_first_column y = tabulate2 (rows y) (cols y - 1) (\<lambda>r c. at2 y r (c + 1))"

text \<open>\<^verbatim>\<open>t == c\<close> for a scalar \<open>c\<close>: the elementwise comparison.\<close>

definition eq_scalar :: "int tensor2 \<Rightarrow> int \<Rightarrow> bool tensor2" where
  "eq_scalar t c = \<lparr>rows = rows t, cols = cols t, elems2 = map (\<lambda>x. x = c) (elems2 t)\<rparr>"

text \<open>
  \<^verbatim>\<open>t[m] = v\<close> for a boolean mask \<open>m\<close> of the shape of \<open>t\<close>: the entries where the mask
  is true become \<open>v\<close>. Both call sites build the mask from a tensor of the same shape.
\<close>

definition setitem_mask :: "int tensor2 \<Rightarrow> bool tensor2 \<Rightarrow> int \<Rightarrow> int tensor2" where
  "setitem_mask t m v =
     \<lparr>rows = rows t, cols = cols t,
      elems2 = map (\<lambda>(x, b). if b then v else x) (zip (elems2 t) (elems2 m))\<rparr>"

text \<open>
  The first lines of both \<^verbatim>\<open>_step\<close> methods:
  \<^verbatim>\<open>
  y_ids = y[:, :-1].contiguous()
  lm_labels = y[:, 1:].clone()
  lm_labels[y[:, 1:] == pad_token_id] = -100
  \<close>
  The result is the pair \<open>(y_ids, lm_labels)\<close>.
\<close>

definition step_inputs :: "int \<Rightarrow> int tensor2 \<Rightarrow> int tensor2 \<times> int tensor2" where
  "step_inputs pad_token_id y =
     (let y_ids = drop_last_column y;
          lm_labels = drop_first_column y;
          lm_labels = setitem_mask lm_labels (eq_scalar (drop_first_column y) pad_token_id) (- 100)
      in (y_ids, lm_labels))"

section \<open>The distillation loss\<close>

subsection \<open>Masked selection\<close>

text \<open>
  Modelled from the spec: \<^verbatim>\<open>invert_mask\<close> of \<^verbatim>\<open>transformers.modeling_bart\<close>, which
  is not among the sources. The mask it receives is true at padding positions; the
  mask it returns is true at real-token positions.
\<close>

definition invert_mask :: "bool tensor2 \<Rightarrow> bool tensor2" where
  "invert_mask m = \<lparr>rows = rows m, cols = cols m, elems2 = map Not (elems2 m)\<rparr>"

text \<open>
  Broadcasting, as torch does it: two sizes of an axis are compatible when they are
  equal or one of them is \<open>1\<close>; an axis of size \<open>1\<close> is read at index \<open>0\<close>.
\<close>

definition bdim :: "nat \<Rightarrow> nat \<Rightarrow> nat option" where
  "bdim a b = (if a = b then Some a else if a = 1 then Some b else if b = 1 then Some a else None)"

definition bidx :: "nat \<Rightarrow> nat \<Rightarrow> nat" where
  "bidx d k = (if d = 1 then 0 else k)"

definition at3b :: "'a tensor3 \<Rightarrow> nat \<Rightarrow> nat \<Rightarrow> nat \<Rightarrow> 'a" where
  "at3b t b i v = at3 t (bidx (dim0 t) b) (bidx (dim1 t) i) (bidx (dim2 t) v)"

text \<open>
  \<^verbatim>\<open>mask[:, :, None].expand_as(s_logits)\<close>: the mask gets a third axis of size one
  and is expanded to the shape of the logits. \<^verbatim>\<open>expand_as\<close> raises a RuntimeError
  unless every axis of the mask has the size of the logits' axis or size one.
\<close>

definition expand_as :: "bool tensor2 \<Rightarrow> 'a tensor3 \<Rightarrow> error + bool tensor3" where
  "expand_as m s =
     (if (rows m = dim0 s \<or> rows m = 1) \<and> (cols m = dim1 s \<or> cols m = 1)
      then Inr \<lparr>dim0 = dim0 s, dim1 = dim1 s, dim2 = dim2 s,
                elems3 = concat (map (\<lambda>b. concat (map (\<lambda>i.
                    map (\<lambda>v. at2 m (bidx (rows m) b) (bidx (cols m) i)) [0..<dim2 s])
                  [0..<dim1 s])) [0..<dim0 s])\<rparr>
      else Inl RuntimeError)"

text \<open>
  \<^verbatim>\<open>torch.masked_select(x, sel)\<close>: the one-dimensional tensor of the entries of \<open>x\<close>
  at which \<open>sel\<close> is true, in row-major order over the common (broadcast) shape; a
  RuntimeError when the two shapes cannot be broadcast.
\<close>

definition masked_select :: "'a tensor3 \<Rightarrow> bool tensor3 \<Rightarrow> error + 'a list" where
  "masked_select x sel =
     (case (bdim (dim0 x) (dim0 sel), bdim (dim1 x) (dim1 sel), bdim (dim2 x) (dim2 sel)) of
        (Some B, Some S, Some V) \<Rightarrow>
          Inr (concat (map (\<lambda>b. concat (map (\<lambda>i. concat (map (\<lambda>v.
                 if at3b sel b i v then [at3b x b i v] else [])
               [0..<V])) [0..<S])) [0..<B]))
      | _ \<Rightarrow> Inl RuntimeError)"

text \<open>
  \<^verbatim>\<open>x.view(-1, V)\<close> on a tensor with the elements \<open>xs\<close>: a RuntimeError when \<open>V\<close> is
  zero (the row count cannot be inferred) or does not divide the number of elements.
\<close>

definition view_rows :: "'a list \<Rightarrow> nat \<Rightarrow> error + 'a tensor2" where
  "view_rows xs V =
     (if V = 0 \<or> length xs mod V \<noteq> 0 then Inl RuntimeError
      else Inr \<lparr>rows = length xs div V, cols = V, elems2 = xs\<rparr>)"

subsection \<open>Softmax and the Kullback-Leibler loss\<close>

text \<open>\<^verbatim>\<open>t / c\<close> for a scalar \<open>c\<close>.\<close>

definition div_scalar :: "real tensor2 \<Rightarrow> real \<Rightarrow> real tensor2" where
  "div_scalar t c = \<lparr>rows = rows t, cols = cols t, elems2 = map (\<lambda>x. x / c) (elems2 t)\<rparr>"

definition softmax_row :: "real list \<Rightarrow> real list" where
  "softmax_row xs = map (\<lambda>x. exp x / sum_list (map exp xs)) xs"

definition log_softmax_row :: "real list \<Rightarrow> real list" where
  "log_softmax_row xs = map (\<lambda>x. x - ln (sum_list (map exp xs))) xs"

text \<open>\<^verbatim>\<open>F.softmax(t, dim=-1)\<close> and \<^verbatim>\<open>F.log_softmax(t, dim=-1)\<close>: row by row.\<close>

definition softmax :: "real tensor2 \<Rightarrow> real tensor2" where
  "softmax t = \<lparr>rows = rows t, cols = cols t, elems2 = concat (map softmax_row (rows_of t))\<rparr>"

definition log_softmax :: "real tensor2 \<Rightarrow> real tensor2" where
  "log_softmax t =
     \<lparr>rows = rows t, cols = cols t, elems2 = concat (map log_softmax_row (rows_of t))\<rparr>"

text \<open>
  The pointwise term of \<^verbatim>\<open>nn.KLDivLoss\<close> for an input \<open>x\<close> (a log-probability) and a
  target \<open>y\<close> (a probability): \<open>y * (log y - x)\<close>, and \<open>0\<close> where the target is not
  positive.
\<close>

definition kl_pointwise :: "real \<Rightarrow> real \<Rightarrow> real" where
  "kl_pointwise x y = (if 0 < y then y * (ln y - x) else 0)"

text \<open>
  \<^verbatim>\<open>nn.KLDivLoss(reduction="batchmean")(inp, tgt)\<close>: the sum of the pointwise terms
  divided by the size of the first axis of the input.
\<close>

definition kl_div_batchmean :: "real tensor2 \<Rightarrow> real tensor2 \<Rightarrow> real" where
  "kl_div_batchmean inp tgt =
     sum_list (map (\<lambda>(x, y). kl_pointwise x y) (zip (elems2 inp) (elems2 tgt))) / real (rows inp)"

subsection \<open>\<^verbatim>\<open>calc_ce_loss\<close>\<close>

text \<open>
  The selection of \<^verbatim>\<open>calc_ce_loss\<close>: with a mask, the entries of both logit tensors
  at the positions the inverted mask marks; without one, all entries.
\<close>

definition select_logits ::
  "bool tensor2 option \<Rightarrow> real tensor3 \<Rightarrow> real tensor3 \<Rightarrow> error + (real list \<times> real list)" where
  "select_logits mask_opt s_logits t_logits =
     (case mask_opt of
        Some m \<Rightarrow>
          (case expand_as (invert_mask m) s_logits of
             Inl e \<Rightarrow> Inl e
           | Inr sel_mask \<Rightarrow>
               (case masked_select s_logits sel_mask of
                  Inl e \<Rightarrow> Inl e
                | Inr s_logits_slct \<Rightarrow>
                    (case masked_select t_logits sel_mask of
                       Inl e \<Rightarrow> Inl e
                     | Inr t_logits_slct \<Rightarrow> Inr (s_logits_slct, t_logits_slct))))
      | None \<Rightarrow> Inr (elems3 s_logits, elems3 t_logits))"

text \<open>
  \<^verbatim>\<open>calc_ce_loss(self, mask, s_logits, t_logits)\<close> for the temperature \<open>T\<close> of
  \<^verbatim>\<open>self\<close>. It returns the loss and the two selected tensors, or the exception raised.
\<close>

definition calc_ce_loss ::
  "real \<Rightarrow> bool tensor2 option \<Rightarrow> real tensor3 \<Rightarrow> real tensor3
     \<Rightarrow> error + (real \<times> real tensor2 \<times> real tensor2)" where
  "calc_ce_loss T mask_opt s_logits t_logits =
     (case select_logits mask_opt s_logits t_logits of
        Inl e \<Rightarrow> Inl e
      | Inr (s_flat, t_flat) \<Rightarrow>
          (case view_rows s_flat (dim2 s_logits) of
             Inl e \<Rightarrow> Inl e
           | Inr s_logits_slct \<Rightarrow>
               (case view_rows t_flat (dim2 s_logits) of
                  Inl e \<Rightarrow> Inl e
                | Inr t_logits_slct \<Rightarrow>
                    if (rows t_logits_slct, cols t_logits_slct)
                         \<noteq> (rows s_logits_slct, cols s_logits_slct)
                    then Inl AssertionError
                    else Inr (kl_div_batchmean
                                (log_softmax (div_scalar s_logits_slct T))
                                (softmax (div_scalar t_logits_slct T)) * T ^ 2,
                              s_logits_slct, t_logits_slct))))"

section \<open>Models and their parameters\<close>

text \<open>
  A parameter is an object with an identity: two modules may hold the same parameter
  (BART ties its embedding tables). The store maps the address of each parameter
  object to its value and its \<^verbatim>\<open>requires_grad\<close> flag. A module is represented by
  the addresses \<^verbatim>\<open>module.parameters()\<close> yields.
\<close>

type_synonym addr = nat

record param =
  data :: "real list"
  requires_grad :: bool

type_synonym store = "addr \<Rightarrow> param"

type_synonym module = "addr list"

text \<open>
  The classes of \<^verbatim>\<open>transformers\<close> are not among the sources; the records below
  hold the attributes \<^verbatim>\<open>finetune.py\<close> reads: \<^verbatim>\<open>config.decoder_layers\<close>,
  \<^verbatim>\<open>model.shared\<close>, \<^verbatim>\<open>model.encoder\<close>, \<^verbatim>\<open>model.decoder\<close> with its
  \<^verbatim>\<open>embed_tokens\<close>, \<^verbatim>\<open>embed_positions\<close> and \<^verbatim>\<open>layers\<close>.
\<close>

record bart_config =
  decoder_layers :: int
  encoder_layers :: int
  d_model :: int
  vocab_size :: int

record bart_decoder =
  embed_tokens :: module
  embed_positions :: module
  layers :: "module list"
  layernorm_embedding :: module

record bart_model =
  shared :: module
  encoder :: module
  decoder :: bart_decoder

text \<open>
  \<^verbatim>\<open>BartForConditionalGeneration\<close>: its configuration and its \<^verbatim>\<open>.model\<close>, here
  \<open>base_model\<close> (so that \<^verbatim>\<open>self.model.model.decoder\<close> reads
  \<open>decoder (base_model (model self))\<close>).
\<close>

record bart_cg =
  config :: bart_config
  base_model :: bart_model

definition decoder_parameters :: "bart_decoder \<Rightarrow> module" where
  "decoder_parameters d =
     embed_tokens d @ embed_positions d @ concat (layers d) @ layernorm_embedding d"

definition parameters :: "bart_cg \<Rightarrow> module" where
  "parameters m =
     shared (base_model m) @ encoder (base_model m) @ decoder_parameters (decoder (base_model m))"

section \<open>Freeze policy\<close>

text \<open>
  \<^verbatim>\<open>
  def freeze_part(model: nn.Module):
      for par in model.parameters():
          par.requires_grad = False
  \<close>
\<close>

definition freeze_part :: "module \<Rightarrow> store \<Rightarrow> store" where
  "freeze_part m h = fold (\<lambda>a h'. h'(a := (h' a)\<lparr>requires_grad := False\<rparr>)) m h"

text \<open>
  The object \<^verbatim>\<open>self\<close> of a \<^verbatim>\<open>SummarizationTrainer\<close>, as far as the modelled methods
  read it, and its extension by \<^verbatim>\<open>SummarizationDistiller\<close>. The teacher is the
  attribute \<^verbatim>\<open>self.model.teacher\<close>.
\<close>

record trainer =
  model :: bart_cg
  pad_token_id :: int

record distiller = trainer +
  teacher :: bart_cg
  temperature :: real
  alpha_mlm :: real
  alpha_ce :: real

text \<open>
  \<^verbatim>\<open>
  def freeze_stuff(self):
      freeze_part(self.model.model.encoder)
      freeze_part(self.model.teacher)
      freeze_part(self.model.model.shared)
      d = self.model.model.decoder
      freeze_part(d.embed_positions)
      freeze_part(d.embed_tokens)
  \<close>
\<close>

definition freeze_stuff :: "distiller \<Rightarrow> store \<Rightarrow> store" where
  "freeze_stuff self h =
     (let h1 = freeze_part (encoder (base_model (model self))) h;
          h2 = freeze_part (parameters (teacher self)) h1;
          h3 = freeze_part (shared (base_model (model self))) h2;
          d = decoder (base_model (model self));
          h4 = freeze_part (embed_positions d) h3;
          h5 = freeze_part (embed_tokens d) h4
      in h5)"

text \<open>
  The parameters \<^verbatim>\<open>freeze_stuff\<close> freezes: those of the student's encoder, of the
  teacher, of the student's shared embedding and of the student decoder's
  \<^verbatim>\<open>embed_positions\<close> and \<^verbatim>\<open>embed_tokens\<close>.
\<close>

definition frozen_parameters :: "distiller \<Rightarrow> addr set" where
  "frozen_parameters self =
     set (encoder (base_model (model self)))
     \<union> set (parameters (teacher self))
     \<union> set (shared (base_model (model self)))
     \<union> set (embed_positions (decoder (base_model (model self))))
     \<union> set (embed_tokens (decoder (base_model (model self))))"

section \<open>The state of a run\<close>

text \<open>
  What the modelled methods read and change: the parameter store, the gradient mode
  of torch (\<^verbatim>\<open>torch.no_grad()\<close> switches it off for a block), the checkpoints
  written to storage, and a trace that records, in order, the calls to the external
  collaborators. A forward call is recorded with the callee, the gradient mode it ran
  in, and the decoder input ids and labels it received.
\<close>

datatype callee = Student | Teacher

datatype event =
    LoadTeacher string
  | ConstructStudent int
  | InitStudent
  | CopyDecoderLayers "int list"
  | Mkdir string
  | SavePretrained string
  | LoadTokenizer
  | BaseInit
  | FreezeStuff
  | Forward callee bool "int tensor2" "int tensor2"

record checkpoint =
  saved_config :: bart_config
  saved_weights :: "real list list"

record world =
  params :: store
  grad_enabled :: bool
  storage :: "string \<Rightarrow> checkpoint option"
  trace :: "event list"

definition log_event :: "event \<Rightarrow> world \<Rightarrow> world" where
  "log_event e w = w\<lparr>trace := trace w @ [e]\<rparr>"

section \<open>The per-step functions\<close>

text \<open>
  The forward pass of a BART model is an external collaborator, taken as a parameter:
  from the parameter store, the model called, the gradient mode and the four tensors
  \<^verbatim>\<open>input_ids\<close>, \<^verbatim>\<open>attention_mask\<close>, \<^verbatim>\<open>decoder_input_ids\<close>, \<^verbatim>\<open>lm_labels\<close> it
  yields the loss, the logits and the decoder padding mask the model keeps as
  \<^verbatim>\<open>last_padding_mask\<close> (true at padding), or the exception it raises. A forward
  pass reads the parameters and writes none.
\<close>

type_synonym forward_fn =
  "store \<Rightarrow> bart_cg \<Rightarrow> bool \<Rightarrow> int tensor2 \<Rightarrow> int tensor2 \<Rightarrow> int tensor2 \<Rightarrow> int tensor2
     \<Rightarrow> error + (real \<times> real tensor3 \<times> bool tensor2 option)"

type_synonym batch = "string \<Rightarrow> int tensor2 option"

text \<open>
  \<^verbatim>\<open>SummarizationTrainer._step\<close>: the batch is read under the keys
  \<^verbatim>\<open>source_ids\<close>, \<^verbatim>\<open>source_mask\<close>, \<^verbatim>\<open>target_ids\<close> (a missing key raises KeyError);
  the result is the one-element tuple of the loss.
\<close>

definition trainer_step ::
  "forward_fn \<Rightarrow> ('a trainer_scheme) \<Rightarrow> batch \<Rightarrow> world \<Rightarrow> (error + real) \<times> world" where
  "trainer_step fwd self batch w =
     (case batch ''source_ids'' of None \<Rightarrow> (Inl KeyError, w) | Some source_ids \<Rightarrow>
      case batch ''source_mask'' of None \<Rightarrow> (Inl KeyError, w) | Some source_mask \<Rightarrow>
      case batch ''target_ids'' of None \<Rightarrow> (Inl KeyError, w) | Some y \<Rightarrow>
        (let (y_ids, lm_labels) = step_inputs (pad_token_id self) y;
             w1 = log_event (Forward Student (grad_enabled w) y_ids lm_labels) w
         in case fwd (params w1) (model self) (grad_enabled w1) source_ids source_mask y_ids lm_labels of
              Inl e \<Rightarrow> (Inl e, w1)
            | Inr (loss, logits, last_padding_mask) \<Rightarrow> (Inr loss, w1)))"

text \<open>
  \<^verbatim>\<open>SummarizationDistiller._step\<close>. The batch is read under the keys
  \<^verbatim>\<open>input_ids\<close>, \<^verbatim>\<open>attention_mask\<close>, \<^verbatim>\<open>decoder_input_ids\<close>. The student runs in
  the gradient mode of the caller; the teacher runs inside
  \<^verbatim>\<open>with torch.no_grad():\<close>, which switches the gradient mode off and restores it
  when the block is left, also by an exception. The result is
  \<^verbatim>\<open>(blended_loss, loss_ce, sloss)\<close>.
\<close>

definition distiller_step ::
  "forward_fn \<Rightarrow> distiller \<Rightarrow> batch \<Rightarrow> world \<Rightarrow> (error + real \<times> real \<times> real) \<times> world" where
  "distiller_step fwd self batch w =
     (case batch ''input_ids'' of None \<Rightarrow> (Inl KeyError, w) | Some source_ids \<Rightarrow>
      case batch ''attention_mask'' of None \<Rightarrow> (Inl KeyError, w) | Some source_mask \<Rightarrow>
      case batch ''decoder_input_ids'' of None \<Rightarrow> (Inl KeyError, w) | Some y \<Rightarrow>
        (let (y_ids, lm_labels) = step_inputs (pad_token_id self) y;
             w1 = log_event (Forward Student (grad_enabled w) y_ids lm_labels) w
         in case fwd (params w1) (model self) (grad_enabled w1) source_ids source_mask y_ids lm_labels of
              Inl e \<Rightarrow> (Inl e, w1)
            | Inr (sloss, slogits, last_padding_mask) \<Rightarrow>
                (let w2 = w1\<lparr>grad_enabled := False\<rparr>;
                     w3 = log_event (Forward Teacher (grad_enabled w2) y_ids lm_labels) w2;
                     r = fwd (params w3) (teacher self) (grad_enabled w3)
                           source_ids source_mask y_ids lm_labels;
                     w4 = w3\<lparr>grad_enabled := grad_enabled w1\<rparr>
                 in case r of
                      Inl e \<Rightarrow> (Inl e, w4)
                    | Inr (tloss, tlogits, teacher_mask) \<Rightarrow>
                        (case calc_ce_loss (temperature self) last_padding_mask slogits tlogits of
                           Inl e \<Rightarrow> (Inl e, w4)
                         | Inr (loss_ce, s_logits_slct, t_logits_slct) \<Rightarrow>
                             (Inr (loss_ce * alpha_ce self + alpha_mlm self * sloss, loss_ce, sloss),
                              w4)))))"

text \<open>
  \<^verbatim>\<open>training_step\<close> of the distiller: the tuple of \<^verbatim>\<open>_step\<close> is zipped with
  \<^verbatim>\<open>loss_names\<close>; the result is the \<^verbatim>\<open>loss\<close> entry and the \<^verbatim>\<open>log\<close> entries.
\<close>

definition training_step ::
  "forward_fn \<Rightarrow> distiller \<Rightarrow> batch \<Rightarrow> world
     \<Rightarrow> (error + real \<times> (string \<times> real) list) \<times> world" where
  "training_step fwd self batch w =
     (case distiller_step fwd self batch w of
        (Inl e, w') \<Rightarrow> (Inl e, w')
      | (Inr (blended_loss, loss_ce, sloss), w') \<Rightarrow>
          (Inr (blended_loss,
                zip [''loss'', ''ce_loss'', ''mlm_loss''] [blended_loss, loss_ce, sloss]), w'))"

section \<open>Construction of the distiller\<close>

text \<open>
  Modelled from the spec: the weight-copying helpers \<^verbatim>\<open>init_student\<close> and
  \<^verbatim>\<open>copy_decoder_layers\<close> of \<^verbatim>\<open>bart_distiller\<close>, which is not among the sources.
  The student initializer copies the teacher's parameters outside the decoder layers
  into the student's corresponding parameters and fails with ShapeMismatch when a
  shape differs; the decoder layer at position \<open>i\<close> of the student is a copy of the
  teacher's decoder layer at index \<open>l2copy[i]\<close>.
\<close>

definition copy_params :: "module \<Rightarrow> module \<Rightarrow> store \<Rightarrow> error + store" where
  "copy_params src dst h =
     (if length src \<noteq> length dst
         \<or> list_ex (\<lambda>(s, d). length (data (h s)) \<noteq> length (data (h d))) (zip src dst)
      then Inl ShapeMismatch
      else Inr (fold (\<lambda>(s, d) h'. h'(d := (h' d)\<lparr>data := data (h s)\<rparr>)) (zip src dst) h))"

definition init_student :: "bart_cg \<Rightarrow> bart_cg \<Rightarrow> store \<Rightarrow> error + store" where
  "init_student student_model teacher_model h =
     (let s = base_model student_model; t = base_model teacher_model in
      case copy_params (shared t) (shared s) h of Inl e \<Rightarrow> Inl e | Inr h1 \<Rightarrow>
      case copy_params (encoder t) (encoder s) h1 of Inl e \<Rightarrow> Inl e | Inr h2 \<Rightarrow>
      case copy_params (embed_tokens (decoder t)) (embed_tokens (decoder s)) h2 of
        Inl e \<Rightarrow> Inl e | Inr h3 \<Rightarrow>
      case copy_params (embed_positions (decoder t)) (embed_positions (decoder s)) h3 of
        Inl e \<Rightarrow> Inl e | Inr h4 \<Rightarrow>
      copy_params (layernorm_embedding (decoder t)) (layernorm_embedding (decoder s)) h4)"

fun copy_layers :: "module list \<Rightarrow> module list \<Rightarrow> int list \<Rightarrow> store \<Rightarrow> error + store" where
  "copy_layers t_layers [] l2copy h = Inr h"
| "copy_layers t_layers (s_layer # s_layers) [] h = Inl IndexError"
| "copy_layers t_layers (s_layer # s_layers) (j # js) h =
     (if j < 0 \<or> int (length t_layers) \<le> j then Inl IndexError
      else case copy_params (t_layers ! nat j) s_layer h of
             Inl e \<Rightarrow> Inl e
           | Inr h' \<Rightarrow> copy_layers t_layers s_layers js h')"

definition copy_decoder_layers :: "bart_cg \<Rightarrow> bart_cg \<Rightarrow> int list \<Rightarrow> store \<Rightarrow> error + store" where
  "copy_decoder_layers teacher_model student_model l2copy h =
     copy_layers (layers (decoder (base_model teacher_model)))
       (layers (decoder (base_model student_model))) l2copy h"

text \<open>
  Modelled from the spec: \<^verbatim>\<open>save_pretrained\<close> of the model class, which is not
  among the sources (the Model Adapter's \<open>save(model, path)\<close>). The configuration and
  the current values of the model's parameters are written under the path.
\<close>

definition save_pretrained :: "bart_cg \<Rightarrow> string \<Rightarrow> world \<Rightarrow> world" where
  "save_pretrained m path w =
     w\<lparr>storage := (storage w)(path :=
          Some \<lparr>saved_config = config m,
                saved_weights = map (\<lambda>a. data (params w a)) (parameters m)\<rparr>)\<rparr>"

text \<open>
  The command-line parameters \<^verbatim>\<open>__init__\<close> reads, and its external collaborators:
  \<^verbatim>\<open>BartForConditionalGeneration.from_pretrained\<close> (the teacher a path names),
  the constructor \<^verbatim>\<open>BartForConditionalGeneration(cfg)\<close> (the modules of a fresh
  model of a configuration), the padding id of the \<^verbatim>\<open>bart-large\<close> tokenizer, and
  the file system: the exception \<^verbatim>\<open>Path(path).mkdir(exist_ok=True)\<close> raises for a
  path, if any (FileNotFoundError when the parent directory is missing,
  FileExistsError when the path names a file).
\<close>

record hparams =
  hp_teacher :: string
  model_name_or_path :: string
  hp_alpha_mlm :: real
  hp_alpha_ce :: real

record env =
  from_pretrained :: "string \<Rightarrow> bart_cg"
  new_bart :: "bart_config \<Rightarrow> bart_model"
  tokenizer_pad :: int
  mkdir_error :: "string \<Rightarrow> error option"

text \<open>
  \<^verbatim>\<open>SummarizationDistiller.__init__\<close>, statement by statement. The state is
  returned also when an exception ends the construction.
\<close>

definition distiller_init :: "env \<Rightarrow> hparams \<Rightarrow> world \<Rightarrow> (error + distiller) \<times> world" where
  "distiller_init env hparams w0 =
     (let teacher_model = from_pretrained env (hp_teacher hparams);
          w1 = log_event (LoadTeacher (hp_teacher hparams)) w0;
          student_updates = student_decoder_layers (decoder_layers (config teacher_model));
          l2copy = layers_to_copy (decoder_layers (config teacher_model));
          student_cfg = (config teacher_model)\<lparr>decoder_layers := student_updates\<rparr>;
          student_model = \<lparr>config = student_cfg, base_model = new_bart env student_cfg\<rparr>;
          w2 = log_event InitStudent (log_event (ConstructStudent student_updates) w1)
      in case init_student student_model teacher_model (params w2) of
           Inl e \<Rightarrow> (Inl e, w2)
         | Inr h3 \<Rightarrow>
             (let w3 = log_event (CopyDecoderLayers l2copy) (w2\<lparr>params := h3\<rparr>)
              in case copy_decoder_layers teacher_model student_model l2copy (params w3) of
                   Inl e \<Rightarrow> (Inl e, w3)
                 | Inr h4 \<Rightarrow>
                     (let w4 = log_event (Mkdir (model_name_or_path hparams)) (w3\<lparr>params := h4\<rparr>)
                      in case mkdir_error env (model_name_or_path hparams) of
                           Some e \<Rightarrow> (Inl e, w4)
                         | None \<Rightarrow>
                             (let w5 = log_event (SavePretrained (model_name_or_path hparams))
                                        (save_pretrained student_model
                                           (model_name_or_path hparams) w4);
                                  w6 = log_event BaseInit (log_event LoadTokenizer w5)
                              in if length (layers (decoder (base_model student_model)))
                                      \<noteq> length l2copy
                                 then (Inl AssertionError, w6)
                                 else
                                   (let self = \<lparr>model = student_model,
                                                pad_token_id = tokenizer_pad env,
                                                teacher = teacher_model, temperature = 2,
                                                alpha_mlm = hp_alpha_mlm hparams,
                                                alpha_ce = hp_alpha_ce hparams\<rparr>;
                                        w7 = log_event FreezeStuff
                                               (w6\<lparr>params := freeze_stuff self (params w6)\<rparr>)
                                    in (Inr self, w7))))))"

text \<open>
  The student model \<^verbatim>\<open>__init__\<close> constructs from the teacher's configuration, before
  any weight is copied: \<^verbatim>\<open>BartForConditionalGeneration(student_cfg)\<close>.
\<close>

definition student_built :: "env \<Rightarrow> hparams \<Rightarrow> bart_cg" where
  "student_built env hparams =
     (let teacher_model = from_pretrained env (hp_teacher hparams);
          student_cfg = (config teacher_model)
            \<lparr>decoder_layers := student_decoder_layers (decoder_layers (config teacher_model))\<rparr>
      in \<lparr>config = student_cfg, base_model = new_bart env student_cfg\<rparr>)"

section \<open>Shifts, in the words of the specification\<close>

text \<open>
  The specification describes the decoder input as the target ids shifted left by one
  position and the labels as the target ids shifted right by one position, with
  padding replaced by the ignore value. A row is shifted left by one position when
  each id has moved one position towards the start of the row (position \<open>c\<close> of the
  result holds the id at position \<open>c + 1\<close>), and shifted right when each id has
  moved one position towards the end (position \<open>c + 1\<close> of the result holds the id
  at position \<open>c\<close>). These two predicates follow those words, for comparison with
  \<open>step_inputs\<close>.
\<close>

definition ignore_padding :: "int \<Rightarrow> int \<Rightarrow> int" where
  "ignore_padding pad x = (if x = pad then - 100 else x)"

definition shifted_left_by_one :: "(int \<Rightarrow> int) \<Rightarrow> int tensor2 \<Rightarrow> int tensor2 \<Rightarrow> bool" where
  "shifted_left_by_one g y z =
     (rows z = rows y
      \<and> list_all (\<lambda>r. list_all (\<lambda>c. at2 z r c = g (at2 y r (c + 1))) [0..<cols z]) [0..<rows y])"

definition shifted_right_by_one :: "(int \<Rightarrow> int) \<Rightarrow> int tensor2 \<Rightarrow> int tensor2 \<Rightarrow> bool" where
  "shifted_right_by_one g y z =
     (rows z = rows y
      \<and> list_all (\<lambda>r. list_all (\<lambda>c. at2 z r (c + 1) = g (at2 y r c)) [0..<cols z - 1])
            [0..<rows y])"

section \<open>The loss, in the words of the specification\<close>

text \<open>
  The logit entries at the real-token positions of a padding mask (true at padding),
  position by position in row-major order.
\<close>

definition real_token_entries :: "bool tensor2 \<Rightarrow> 'a tensor3 \<Rightarrow> 'a list" where
  "real_token_entries m x =
     concat (map (\<lambda>(b, i). map (\<lambda>v. at3 x b i v) [0..<dim2 x])
       (filter (\<lambda>(b, i). \<not> at2 m b i) (List.product [0..<dim0 x] [0..<dim1 x])))"



section \<open>A small concrete instance\<close>

text \<open>
  A teacher with \<open>n\<close> decoder layers of one parameter each, a constructor that builds
  as many decoder layers as the configuration says, a file system in which every
  directory can be created, and a store in which the
  parameter at address \<open>a\<close> holds the value \<open>a\<close> and is trainable. Token and
  encoder embeddings share one parameter, as in BART. The instance is used to run
  the model on concrete inputs.
\<close>

definition tiny_bart :: "nat \<Rightarrow> nat \<Rightarrow> bart_model" where
  "tiny_bart base L =
     \<lparr>shared = [base], encoder = [base, base + 1],
      decoder = \<lparr>embed_tokens = [base], embed_positions = [base + 2],
                 layers = map (\<lambda>k. [base + 4 + k]) [0..<L],
                 layernorm_embedding = [base + 3]\<rparr>\<rparr>"

definition tiny_env :: "int \<Rightarrow> env" where
  "tiny_env n =
     \<lparr>from_pretrained =
        (\<lambda>path. \<lparr>config = \<lparr>decoder_layers = n, encoder_layers = 1, d_model = 1, vocab_size = 2\<rparr>,
                  base_model = tiny_bart 0 (nat n)\<rparr>),
      new_bart = (\<lambda>cfg. tiny_bart 100 (nat (decoder_layers cfg))),
      tokenizer_pad = 1,
      mkdir_error = (\<lambda>path. None)\<rparr>"

definition tiny_hparams :: hparams where
  "tiny_hparams =
     \<lparr>hp_teacher = ''teacher'', model_name_or_path = ''student'',
      hp_alpha_mlm = 1 / 5, hp_alpha_ce = 4 / 5\<rparr>"

definition tiny_world :: world where
  "tiny_world =
     \<lparr>params = (\<lambda>a. \<lparr>data = [real a], requires_grad = True\<rparr>), grad_enabled = True,
      storage = (\<lambda>path. None), trace = []\<rparr>"

text \<open>The distiller the construction returns for the teacher with four decoder layers.\<close>

definition tiny_distiller :: distiller where
  "tiny_distiller =
     \<lparr>model = student_built (tiny_env 4) tiny_hparams, pad_token_id = 1,
      teacher = from_pretrained (tiny_env 4) ''teacher'', temperature = 2,
      alpha_mlm = 1 / 5, alpha_ce = 4 / 5\<rparr>"

text \<open>
  A batch of one sequence whose target ids end in two padding tokens (the padding id
  is \<open>1\<close>), and a forward pass that answers with fixed logits over a vocabulary of
  two tokens: the teacher (recognised by its four decoder layers) and the student
  disagree at the first position; the padding mask of the student marks the third
  position.
\<close>

definition tiny_batch :: batch where
  "tiny_batch =
     (\<lambda>key. None)
       (''input_ids'' := Some \<lparr>rows = 1, cols = 2, elems2 = [7, 8]\<rparr>,
        ''attention_mask'' := Some \<lparr>rows = 1, cols = 2, elems2 = [1, 1]\<rparr>,
        ''decoder_input_ids'' := Some \<lparr>rows = 1, cols = 4, elems2 = [0, 5, 1, 1]\<rparr>,
        ''source_ids'' := Some \<lparr>rows = 1, cols = 2, elems2 = [7, 8]\<rparr>,
        ''source_mask'' := Some \<lparr>rows = 1, cols = 2, elems2 = [1, 1]\<rparr>,
        ''target_ids'' := Some \<lparr>rows = 1, cols = 4, elems2 = [0, 5, 1, 1]\<rparr>)"

definition tiny_forward :: forward_fn where
  "tiny_forward h m grad input_ids attention_mask decoder_input_ids lm_labels =
     (if decoder_layers (config m) = 4
      then Inr (5, \<lparr>dim0 = 1, dim1 = 3, dim2 = 2, elems3 = [2 * ln 3, 0, 0, 0, 7, 2]\<rparr>, None)
      else Inr (3, \<lparr>dim0 = 1, dim1 = 3, dim2 = 2, elems3 = [0, 0, 0, 0, 1, 5]\<rparr>,
                Some (eq_scalar decoder_input_ids 1)))"

text \<open>
  Logits of one sequence of two positions over a vocabulary of two tokens, a padding
  mask that marks the second position, and logits that differ from the former only
  at the second position.
\<close>

definition tiny_mask :: "bool tensor2" where
  "tiny_mask = \<lparr>rows = 1, cols = 2, elems2 = [False, True]\<rparr>"

definition tiny_slogits :: "real tensor3" where
  "tiny_slogits = \<lparr>dim0 = 1, dim1 = 2, dim2 = 2, elems3 = [0, 0, 1, 5]\<rparr>"

definition tiny_tlogits :: "real tensor3" where
  "tiny_tlogits = \<lparr>dim0 = 1, dim1 = 2, dim2 = 2, elems3 = [2 * ln 3, 0, 7, 2]\<rparr>"

definition tiny_slogits_perturbed :: "real tensor3" where
  "tiny_slogits_perturbed = \<lparr>dim0 = 1, dim1 = 2, dim2 = 2, elems3 = [0, 0, 9, 9]\<rparr>"

definition tiny_tlogits_perturbed :: "real tensor3" where
  "tiny_tlogits_perturbed = \<lparr>dim0 = 1, dim1 = 2, dim2 = 2, elems3 = [2 * ln 3, 0, 8, 6]\<rparr>"

section \<open>Properties of the layer selector\<close>

lemma length_stride2: "length (stride2 xs) = (length xs + 1) div 2"
  by (induction xs rule: stride2.induct) auto

lemma nth_stride2: "k < length (stride2 xs) \<Longrightarrow> stride2 xs ! k = xs ! (2 * k)"
proof (induction xs arbitrary: k rule: stride2.induct)
  case (3 x y xs)
  then show ?case by (cases k) auto
qed auto

lemma stride2_py_range:
  "stride2 (py_range n) = map (\<lambda>k. 2 * int k) [0..<(nat n + 1) div 2]"
proof (rule nth_equalityI)
  show "length (stride2 (py_range n)) = length (map (\<lambda>k. 2 * int k) [0..<(nat n + 1) div 2])"
    by (simp add: length_stride2 py_range_def)
next
  fix i assume "i < length (stride2 (py_range n))"
  then show "stride2 (py_range n) ! i = map (\<lambda>k. 2 * int k) [0..<(nat n + 1) div 2] ! i"
    by (simp add: nth_stride2 length_stride2 py_range_def)
qed

text \<open>
  C1. For every teacher depth \<open>n\<close> the selector computes the student depth
  \<open>n div 2\<close> and returns the fixed list \<open>[0, 2, 4, 7, 9, 11]\<close> when that depth is
  \<open>6\<close>, and otherwise the even indices \<open>0, 2, 4, \<dots>\<close> below \<open>n\<close> in increasing order;
  for depth 12 it returns \<open>[0, 2, 4, 7, 9, 11]\<close> and for depth 16 it returns
  \<open>[0, 2, 4, 6, 8, 10, 12, 14]\<close>.
\<close>

theorem layer_selector_policy:
  "student_decoder_layers n = n div 2
   \<and> layers_to_copy n =
       (if n div 2 = 6 then [0, 2, 4, 7, 9, 11]
        else map (\<lambda>k. 2 * int k) [0..<(nat n + 1) div 2])
   \<and> layers_to_copy 12 = [0, 2, 4, 7, 9, 11]
   \<and> layers_to_copy 16 = [0, 2, 4, 6, 8, 10, 12, 14]"
proof -
  have depth: "student_decoder_layers n = n div 2"
    by (simp add: student_decoder_layers_def)
  have general: "layers_to_copy n =
      (if n div 2 = 6 then [0, 2, 4, 7, 9, 11]
       else map (\<lambda>k. 2 * int k) [0..<(nat n + 1) div 2])"
    by (simp add: layers_to_copy_def student_decoder_layers_def stride2_py_range)
  have twelve: "layers_to_copy 12 = [0, 2, 4, 7, 9, 11]"
    by (simp add: layers_to_copy_def student_decoder_layers_def)
  have "[0..<8] = [0, 1, 2, 3, 4, 5, 6, 7::nat]"
    by (simp add: upt_rec)
  then have sixteen: "layers_to_copy 16 = [0, 2, 4, 6, 8, 10, 12, 14]"
    by (simp add: layers_to_copy_def student_decoder_layers_def stride2_py_range)
  from depth general twelve sixteen show ?thesis by blast
qed







section \<open>Properties of the construction\<close>

lemmas tiny_defs = tiny_env_def tiny_hparams_def tiny_world_def tiny_bart_def

lemmas init_defs = distiller_init_def Let_def init_student_def copy_params_def
  copy_decoder_layers_def log_event_def student_decoder_layers_def layers_to_copy_def
  py_range_def save_pretrained_def

lemma upt_small:
  "[0..<5] = [0, 1, 2, 3, 4]" "[0..<4] = [0, 1, 2, 3]" "[0..<3] = [0, 1, 2]" "[0..<2] = [0, 1]"
  by (simp_all add: upt_rec)

lemma copy_params_error: "copy_params src dst h = Inl e \<Longrightarrow> e = ShapeMismatch"
  by (auto simp: copy_params_def split: if_splits)

lemma init_student_error: "init_student s t h = Inl e \<Longrightarrow> e = ShapeMismatch"
  by (auto simp: init_student_def Let_def split: sum.splits dest: copy_params_error)

lemma copy_layers_error:
  assumes "copy_layers ts ss l2 h = Inl e" "length ss \<le> length l2"
    and "\<forall>j \<in> set l2. 0 \<le> j \<and> j < int (length ts)"
  shows "e = ShapeMismatch"
  using assms
proof (induction ts ss l2 h rule: copy_layers.induct)
  case (3 t_layers s_layer s_layers j js h)
  then show ?case
    by (auto split: if_splits sum.splits dest: copy_params_error)
qed auto







lemma tiny_init_result:
  "fst (distiller_init (tiny_env 4) tiny_hparams tiny_world)
     = Inr \<lparr>model = student_built (tiny_env 4) tiny_hparams, pad_token_id = 1,
            teacher = from_pretrained (tiny_env 4) ''teacher'', temperature = 2,
            alpha_mlm = 1 / 5, alpha_ce = 4 / 5\<rparr>"
  by (simp add: init_defs tiny_defs upt_small student_built_def)





lemma distiller_init_trace:
  assumes "SavePretrained p
             \<in> set (drop (length (trace w)) (trace (snd (distiller_init env hp w))))"
  shows "\<exists>post. drop (length (trace w)) (trace (snd (distiller_init env hp w)))
           = [LoadTeacher (hp_teacher hp),
              ConstructStudent (student_decoder_layers
                (decoder_layers (config (from_pretrained env (hp_teacher hp))))),
              InitStudent,
              CopyDecoderLayers
                (layers_to_copy (decoder_layers (config (from_pretrained env (hp_teacher hp))))),
              Mkdir (model_name_or_path hp),
              SavePretrained (model_name_or_path hp)] @ post"
  using assms
  by (auto simp: distiller_init_def Let_def log_event_def save_pretrained_def
      split: sum.splits option.splits if_splits)

text \<open>
  C8. The construction saves the student after the weights have been copied, not
  before: in a run on a teacher with four decoder layers the calls are, in order,
  \<^verbatim>\<open>init_student\<close>, \<^verbatim>\<open>copy_decoder_layers\<close>, \<^verbatim>\<open>mkdir\<close>, \<^verbatim>\<open>save_pretrained\<close>, and the
  checkpoint written holds in its two decoder layers the values \<open>4\<close> and \<open>6\<close> of the
  teacher's layers 0 and 2, not the values \<open>104\<close> and \<open>105\<close> the freshly constructed
  student had.
\<close>

theorem save_follows_weight_copy:
  "trace (snd (distiller_init (tiny_env 4) tiny_hparams tiny_world))
     = [LoadTeacher ''teacher'', ConstructStudent 2, InitStudent, CopyDecoderLayers [0, 2],
        Mkdir ''student'', SavePretrained ''student'', LoadTokenizer, BaseInit, FreezeStuff]
   \<and> parameters (student_built (tiny_env 4) tiny_hparams)
       = [100, 100, 101, 100, 102, 104, 105, 103]
   \<and> map (\<lambda>a. data (params tiny_world a)) (parameters (student_built (tiny_env 4) tiny_hparams))
       = [[100], [100], [101], [100], [102], [104], [105], [103]]
   \<and> storage (snd (distiller_init (tiny_env 4) tiny_hparams tiny_world)) ''student''
       = Some \<lparr>saved_config =
                 \<lparr>decoder_layers = 2, encoder_layers = 1, d_model = 1, vocab_size = 2\<rparr>,
               saved_weights = [[0], [0], [1], [0], [2], [4], [6], [3]]\<rparr>"
proof -
  have events: "trace (snd (distiller_init (tiny_env 4) tiny_hparams tiny_world))
     = [LoadTeacher ''teacher'', ConstructStudent 2, InitStudent, CopyDecoderLayers [0, 2],
        Mkdir ''student'', SavePretrained ''student'', LoadTokenizer, BaseInit, FreezeStuff]"
    by (simp add: init_defs tiny_defs upt_small)
  have addrs: "parameters (student_built (tiny_env 4) tiny_hparams)
       = [100, 100, 101, 100, 102, 104, 105, 103]"
    by (simp add: student_built_def student_decoder_layers_def tiny_defs upt_small
        parameters_def decoder_parameters_def)
  have fresh: "map (\<lambda>a. data (params tiny_world a)) (parameters (student_built (tiny_env 4) tiny_hparams))
       = [[100], [100], [101], [100], [102], [104], [105], [103]]"
    by (simp add: addrs) (simp add: tiny_world_def)
  have saved: "storage (snd (distiller_init (tiny_env 4) tiny_hparams tiny_world)) ''student''
       = Some \<lparr>saved_config =
                 \<lparr>decoder_layers = 2, encoder_layers = 1, d_model = 1, vocab_size = 2\<rparr>,
               saved_weights = [[0], [0], [1], [0], [2], [4], [6], [3]]\<rparr>"
    by (simp add: init_defs tiny_defs upt_small parameters_def decoder_parameters_def)
  from events addrs fresh saved show ?thesis by blast
qed

section \<open>Properties of the freeze policy\<close>

lemma freeze_part_apply:
  "freeze_part m h a = (if a \<in> set m then (h a)\<lparr>requires_grad := False\<rparr> else h a)"
  unfolding freeze_part_def
proof (induction m arbitrary: h)
  case Nil
  show ?case by simp
next
  case (Cons x xs)
  let ?F = "\<lambda>a h'. h'(a := (h' a)\<lparr>requires_grad := False\<rparr>)"
  have "fold ?F (x # xs) h a = fold ?F xs (?F x h) a"
    by (simp only: fold_simps)
  also have "\<dots> = (if a \<in> set xs then ((?F x h) a)\<lparr>requires_grad := False\<rparr> else (?F x h) a)"
    by (rule Cons.IH)
  also have "\<dots> = (if a \<in> set (x # xs) then (h a)\<lparr>requires_grad := False\<rparr> else h a)"
    by simp
  finally show ?case .
qed

lemma freeze_stuff_apply:
  "freeze_stuff self h a =
     (if a \<in> frozen_parameters self then (h a)\<lparr>requires_grad := False\<rparr> else h a)"
  by (simp add: freeze_stuff_def frozen_parameters_def Let_def freeze_part_apply)

lemma distiller_init_frozen:
  assumes "fst (distiller_init env hp w) = Inr self"
  shows "\<exists>h. params (snd (distiller_init env hp w)) = freeze_stuff self h"
  using assms
  by (auto simp: distiller_init_def Let_def log_event_def
      split: sum.splits option.splits if_splits)

text \<open>
  C5. After \<^verbatim>\<open>freeze_stuff\<close>, \<^verbatim>\<open>requires_grad\<close> is false for every parameter of the
  teacher, of the student encoder, of the student's shared embedding and of the
  student decoder's positional and token embeddings. Every other parameter object
  is left as it was, the values of all parameters are unchanged, and so a parameter
  of a student decoder layer that is none of the frozen ones keeps its flag: one
  that was trainable remains trainable. The same holds of the store a completed
  construction of the distiller leaves.
\<close>

theorem freeze_policy:
  "(\<forall>a \<in> set (parameters (teacher self)). \<not> requires_grad (freeze_stuff self h a))
   \<and> (\<forall>a \<in> set (encoder (base_model (model self))). \<not> requires_grad (freeze_stuff self h a))
   \<and> (\<forall>a \<in> set (shared (base_model (model self))). \<not> requires_grad (freeze_stuff self h a))
   \<and> (\<forall>a \<in> set (embed_positions (decoder (base_model (model self)))).
         \<not> requires_grad (freeze_stuff self h a))
   \<and> (\<forall>a \<in> set (embed_tokens (decoder (base_model (model self)))).
         \<not> requires_grad (freeze_stuff self h a))
   \<and> (\<forall>a. a \<notin> frozen_parameters self \<longrightarrow> freeze_stuff self h a = h a)
   \<and> (\<forall>a. data (freeze_stuff self h a) = data (h a))
   \<and> (\<forall>a \<in> set (concat (layers (decoder (base_model (model self))))).
         a \<notin> frozen_parameters self \<longrightarrow>
           requires_grad (freeze_stuff self h a) = requires_grad (h a))
   \<and> (fst (distiller_init env hp w) = Inr self \<longrightarrow>
         (\<forall>a \<in> frozen_parameters self. \<not> requires_grad (params (snd (distiller_init env hp w)) a)))"
proof -
  have frozen: "\<not> requires_grad (freeze_stuff self h a)" if "a \<in> frozen_parameters self" for a
    using that by (simp add: freeze_stuff_apply)
  have frame: "freeze_stuff self h a = h a" if "a \<notin> frozen_parameters self" for a
    using that by (simp add: freeze_stuff_apply)
  have unchanged_data: "data (freeze_stuff self h a) = data (h a)" for a
    by (simp add: freeze_stuff_apply)
  have built: "\<not> requires_grad (params (snd (distiller_init env hp w)) a)"
    if "fst (distiller_init env hp w) = Inr self" "a \<in> frozen_parameters self" for a
  proof -
    from that(1) obtain h' where "params (snd (distiller_init env hp w)) = freeze_stuff self h'"
      using distiller_init_frozen by blast
    with that(2) show ?thesis by (simp add: freeze_stuff_apply)
  qed
  have groups: "set (parameters (teacher self)) \<subseteq> frozen_parameters self"
    "set (encoder (base_model (model self))) \<subseteq> frozen_parameters self"
    "set (shared (base_model (model self))) \<subseteq> frozen_parameters self"
    "set (embed_positions (decoder (base_model (model self)))) \<subseteq> frozen_parameters self"
    "set (embed_tokens (decoder (base_model (model self)))) \<subseteq> frozen_parameters self"
    by (auto simp: frozen_parameters_def)
  from groups frozen frame unchanged_data built show ?thesis
    by (intro conjI ballI allI impI) (auto simp: subset_iff)
qed

theorem freeze_policy_witness:
  "0 \<in> set (parameters (teacher tiny_distiller))
   \<and> \<not> requires_grad (freeze_stuff tiny_distiller (params tiny_world) 0)
   \<and> 101 \<in> set (encoder (base_model (model tiny_distiller)))
   \<and> \<not> requires_grad (freeze_stuff tiny_distiller (params tiny_world) 101)
   \<and> 104 \<in> set (concat (layers (decoder (base_model (model tiny_distiller)))))
   \<and> 104 \<notin> frozen_parameters tiny_distiller
   \<and> requires_grad (params tiny_world 104)
   \<and> requires_grad (freeze_stuff tiny_distiller (params tiny_world) 104)
   \<and> fst (distiller_init (tiny_env 4) tiny_hparams tiny_world) = Inr tiny_distiller
   \<and> \<not> requires_grad (params (snd (distiller_init (tiny_env 4) tiny_hparams tiny_world)) 101)"
proof -
  have teacher_par: "0 \<in> set (parameters (teacher tiny_distiller))"
    by (simp add: tiny_distiller_def tiny_defs parameters_def)
  have encoder_par: "101 \<in> set (encoder (base_model (model tiny_distiller)))"
    by (simp add: tiny_distiller_def student_built_def tiny_defs)
  have layer_par: "104 \<in> set (concat (layers (decoder (base_model (model tiny_distiller)))))"
    by (simp add: tiny_distiller_def student_built_def student_decoder_layers_def tiny_defs upt_small)
  have not_frozen: "104 \<notin> frozen_parameters tiny_distiller"
    by (simp add: frozen_parameters_def tiny_distiller_def student_built_def
        student_decoder_layers_def tiny_defs upt_small parameters_def decoder_parameters_def)
  have trainable: "requires_grad (params tiny_world 104)"
    by (simp add: tiny_world_def)
  have run: "fst (distiller_init (tiny_env 4) tiny_hparams tiny_world) = Inr tiny_distiller"
    by (simp add: init_defs tiny_defs upt_small student_built_def tiny_distiller_def)
  have in_frozen: "101 \<in> frozen_parameters tiny_distiller"
    using encoder_par by (simp add: frozen_parameters_def)
  note fp = freeze_policy[of tiny_distiller "params tiny_world" "tiny_env 4" tiny_hparams tiny_world]
  from fp teacher_par have a: "\<not> requires_grad (freeze_stuff tiny_distiller (params tiny_world) 0)"
    by blast
  from fp encoder_par have b: "\<not> requires_grad (freeze_stuff tiny_distiller (params tiny_world) 101)"
    by blast
  from fp layer_par not_frozen trainable
  have c: "requires_grad (freeze_stuff tiny_distiller (params tiny_world) 104)"
    by blast
  from fp run in_frozen
  have d: "\<not> requires_grad (params (snd (distiller_init (tiny_env 4) tiny_hparams tiny_world)) 101)"
    by blast
  from teacher_par a encoder_par b layer_par not_frozen trainable c run d show ?thesis
    by blast
qed

section \<open>Properties of the per-step functions\<close>

lemmas loss_defs = calc_ce_loss_def select_logits_def view_rows_def kl_div_batchmean_def
  log_softmax_def softmax_def div_scalar_def rows_of_def softmax_row_def log_softmax_row_def
  kl_pointwise_def expand_as_def invert_mask_def masked_select_def bdim_def bidx_def at3b_def
  at3_def at2_def

lemmas step_defs = distiller_step_def trainer_step_def step_inputs_def drop_last_column_def
  drop_first_column_def tabulate2_def eq_scalar_def setitem_mask_def log_event_def Let_def
  at2_def

lemmas tiny_step_defs = tiny_batch_def tiny_forward_def tiny_distiller_def tiny_defs
  student_built_def student_decoder_layers_def upt_small

lemma distiller_step_success:
  assumes "fst (distiller_step fwd self batch w) = Inr (blended_loss, loss_ce, sloss)"
  obtains source_ids source_mask y slogits last_padding_mask tloss tlogits teacher_mask
    s_logits_slct t_logits_slct
  where "batch ''input_ids'' = Some source_ids"
    and "batch ''attention_mask'' = Some source_mask"
    and "batch ''decoder_input_ids'' = Some y"
    and "fwd (params w) (model self) (grad_enabled w) source_ids source_mask
           (fst (step_inputs (pad_token_id self) y)) (snd (step_inputs (pad_token_id self) y))
         = Inr (sloss, slogits, last_padding_mask)"
    and "fwd (params w) (teacher self) False source_ids source_mask
           (fst (step_inputs (pad_token_id self) y)) (snd (step_inputs (pad_token_id self) y))
         = Inr (tloss, tlogits, teacher_mask)"
    and "calc_ce_loss (temperature self) last_padding_mask slogits tlogits
         = Inr (loss_ce, s_logits_slct, t_logits_slct)"
    and "blended_loss = loss_ce * alpha_ce self + alpha_mlm self * sloss"
  using assms
  by (auto simp: distiller_step_def Let_def log_event_def
      split: option.splits sum.splits prod.splits)

text \<open>
  C2. Whenever the distillation step returns, the first component of its result is
  \<open>alpha_ce * loss_ce + alpha_mlm * sloss\<close>, where \<open>loss_ce\<close>, the second component,
  is the soft-target loss \<^verbatim>\<open>calc_ce_loss\<close> computes from the student's and the
  teacher's logits, and \<open>sloss\<close>, the third, is the supervised loss of the student's
  forward pass. With the weights \<open>(1, 0)\<close> the total is the soft-target loss, with
  \<open>(0, 1)\<close> the supervised loss. The \<^verbatim>\<open>loss\<close> entry of \<^verbatim>\<open>training_step\<close> is this
  total.
\<close>

theorem blended_loss_formula:
  assumes "fst (distiller_step fwd self batch w) = Inr (blended_loss, loss_ce, sloss)"
  shows "blended_loss = alpha_ce self * loss_ce + alpha_mlm self * sloss
         \<and> (alpha_ce self = 1 \<and> alpha_mlm self = 0 \<longrightarrow> blended_loss = loss_ce)
         \<and> (alpha_ce self = 0 \<and> alpha_mlm self = 1 \<longrightarrow> blended_loss = sloss)
         \<and> (\<exists>source_ids source_mask y slogits last_padding_mask tloss tlogits teacher_mask
               s_logits_slct t_logits_slct.
               batch ''input_ids'' = Some source_ids
               \<and> batch ''attention_mask'' = Some source_mask
               \<and> batch ''decoder_input_ids'' = Some y
               \<and> fwd (params w) (model self) (grad_enabled w) source_ids source_mask
                    (fst (step_inputs (pad_token_id self) y))
                    (snd (step_inputs (pad_token_id self) y))
                  = Inr (sloss, slogits, last_padding_mask)
               \<and> fwd (params w) (teacher self) False source_ids source_mask
                    (fst (step_inputs (pad_token_id self) y))
                    (snd (step_inputs (pad_token_id self) y))
                  = Inr (tloss, tlogits, teacher_mask)
               \<and> calc_ce_loss (temperature self) last_padding_mask slogits tlogits
                  = Inr (loss_ce, s_logits_slct, t_logits_slct))
         \<and> (\<exists>logs. fst (training_step fwd self batch w) = Inr (blended_loss, logs))"
proof -
  from assms obtain source_ids source_mask y slogits last_padding_mask tloss tlogits
    teacher_mask s_logits_slct t_logits_slct
    where run: "batch ''input_ids'' = Some source_ids"
      "batch ''attention_mask'' = Some source_mask"
      "batch ''decoder_input_ids'' = Some y"
      "fwd (params w) (model self) (grad_enabled w) source_ids source_mask
           (fst (step_inputs (pad_token_id self) y)) (snd (step_inputs (pad_token_id self) y))
         = Inr (sloss, slogits, last_padding_mask)"
      "fwd (params w) (teacher self) False source_ids source_mask
           (fst (step_inputs (pad_token_id self) y)) (snd (step_inputs (pad_token_id self) y))
         = Inr (tloss, tlogits, teacher_mask)"
      "calc_ce_loss (temperature self) last_padding_mask slogits tlogits
         = Inr (loss_ce, s_logits_slct, t_logits_slct)"
      and blend: "blended_loss = loss_ce * alpha_ce self + alpha_mlm self * sloss"
    by (rule distiller_step_success)
  from blend have formula: "blended_loss = alpha_ce self * loss_ce + alpha_mlm self * sloss"
    by (simp add: mult.commute)
  then have only_ce: "alpha_ce self = 1 \<and> alpha_mlm self = 0 \<longrightarrow> blended_loss = loss_ce"
    and only_mlm: "alpha_ce self = 0 \<and> alpha_mlm self = 1 \<longrightarrow> blended_loss = sloss"
    by simp_all
  have "\<exists>logs. fst (training_step fwd self batch w) = Inr (blended_loss, logs)"
    using assms by (cases "distiller_step fwd self batch w") (simp add: training_step_def)
  with formula only_ce only_mlm run show ?thesis by blast
qed

lemma ln_4: "ln (4::real) = 2 * ln 2"
  using ln_realpow[of "2::real" 2] by simp

lemma tiny_step_result:
  "fst (distiller_step tiny_forward tiny_distiller tiny_batch tiny_world)
     = Inr (4 / 5 * (3 / 2 * ln 3 - 2 * ln 2) + 1 / 5 * 3, 3 / 2 * ln 3 - 2 * ln 2, 3)"
  by (simp add: step_defs tiny_step_defs loss_defs ln_div ln_4) argo

theorem blended_loss_formula_witness:
  "fst (distiller_step tiny_forward tiny_distiller tiny_batch tiny_world)
     = Inr (4 / 5 * (3 / 2 * ln 3 - 2 * ln 2) + 1 / 5 * 3, 3 / 2 * ln 3 - 2 * ln 2, 3)
   \<and> 4 / 5 * (3 / 2 * ln 3 - 2 * ln 2) + 1 / 5 * 3
     = alpha_ce tiny_distiller * (3 / 2 * ln 3 - 2 * ln 2) + alpha_mlm tiny_distiller * (3::real)"
  using blended_loss_formula[OF tiny_step_result] tiny_step_result by blast

lemma length_concat_uniform:
  "\<forall>xs \<in> set xss. length xs = n \<Longrightarrow> length (concat xss) = length xss * n"
  by (induction xss) auto

lemma nth_concat_uniform:
  "\<forall>xs \<in> set xss. length xs = n \<Longrightarrow> i < length xss \<Longrightarrow> j < n
     \<Longrightarrow> concat xss ! (i * n + j) = xss ! i ! j"
proof (induction xss arbitrary: i)
  case Nil
  then show ?case by simp
next
  case (Cons xs xss)
  show ?case
  proof (cases i)
    case 0
    with Cons.prems show ?thesis by (simp add: nth_append)
  next
    case (Suc k)
    with Cons.prems have "concat xss ! (k * n + j) = xss ! k ! j"
      by (intro Cons.IH) auto
    with Cons.prems Suc show ?thesis by (simp add: nth_append)
  qed
qed

lemma at2_tabulate2: "r < R \<Longrightarrow> c < C \<Longrightarrow> at2 (tabulate2 R C f) r c = f r c"
  using nth_concat_uniform[of "map (\<lambda>r. map (f r) [0..<C]) [0..<R]" C r c]
  by (simp add: at2_def tabulate2_def)

lemma wf2_tabulate2: "wf2 (tabulate2 R C f)"
  using length_concat_uniform[of "map (\<lambda>r. map (f r) [0..<C]) [0..<R]" C]
  by (simp add: wf2_def tabulate2_def)

lemma step_inputs_fst: "fst (step_inputs pad y) = drop_last_column y"
  by (simp add: step_inputs_def Let_def)

lemma step_inputs_snd:
  "snd (step_inputs pad y)
     = tabulate2 (rows y) (cols y - 1) (\<lambda>r c. ignore_padding pad (at2 y r (c + 1)))"
proof -
  have fill: "map (\<lambda>(x, b). if b then - 100 else x) (zip xs (map (\<lambda>x. x = pad) xs))
          = map (ignore_padding pad) xs" for xs :: "int list"
    by (induction xs) (auto simp: ignore_padding_def)
  have "snd (step_inputs pad y)
      = \<lparr>rows = rows y, cols = cols y - 1,
         elems2 = map (ignore_padding pad) (elems2 (drop_first_column y))\<rparr>"
    unfolding step_inputs_def Let_def setitem_mask_def eq_scalar_def snd_conv
      tensor2.simps fill
    by (simp add: drop_first_column_def tabulate2_def)
  also have "\<dots> = tabulate2 (rows y) (cols y - 1) (\<lambda>r c. ignore_padding pad (at2 y r (c + 1)))"
    by (simp add: drop_first_column_def tabulate2_def map_concat comp_def)
  finally show ?thesis .
qed

lemma distiller_step_trace:
  assumes "batch ''input_ids'' = Some source_ids" "batch ''attention_mask'' = Some source_mask"
    "batch ''decoder_input_ids'' = Some y"
  shows "\<exists>post. trace (snd (distiller_step fwd self batch w))
           = trace w @ Forward Student (grad_enabled w) (fst (step_inputs (pad_token_id self) y))
                         (snd (step_inputs (pad_token_id self) y)) # post"
  using assms
  by (auto simp: distiller_step_def Let_def log_event_def
      split: option.splits sum.splits prod.splits)

lemma trainer_step_trace:
  assumes "batch ''source_ids'' = Some source_ids" "batch ''source_mask'' = Some source_mask"
    "batch ''target_ids'' = Some y"
  shows "trace (snd (trainer_step fwd self batch w))
           = trace w @ [Forward Student (grad_enabled w) (fst (step_inputs (pad_token_id self) y))
                         (snd (step_inputs (pad_token_id self) y))]"
  using assms
  by (auto simp: trainer_step_def Let_def log_event_def
      split: option.splits sum.splits prod.splits)

text \<open>
  C7, as amended. For every batch both \<^verbatim>\<open>_step\<close> methods pass to the forward pass,
  as decoder input, the target ids without their last position, each id at its own
  position (no shift), and as labels the target ids shifted left by one position
  (position \<open>c\<close> holds the target id at position \<open>c + 1\<close>, the first id is dropped),
  with every label that equals the padding id replaced by \<open>- 100\<close>.
\<close>

theorem step_inputs_construction:
  "rows (fst (step_inputs pad y)) = rows y \<and> cols (fst (step_inputs pad y)) = cols y - 1
   \<and> rows (snd (step_inputs pad y)) = rows y \<and> cols (snd (step_inputs pad y)) = cols y - 1
   \<and> wf2 (fst (step_inputs pad y)) \<and> wf2 (snd (step_inputs pad y))
   \<and> (\<forall>r < rows y. \<forall>c < cols y - 1.
         at2 (fst (step_inputs pad y)) r c = at2 y r c
         \<and> at2 (snd (step_inputs pad y)) r c
             = (if at2 y r (c + 1) = pad then - 100 else at2 y r (c + 1)))
   \<and> shifted_left_by_one (ignore_padding pad) y (snd (step_inputs pad y))
   \<and> (batch ''input_ids'' = Some source_ids \<and> batch ''attention_mask'' = Some source_mask
        \<and> batch ''decoder_input_ids'' = Some y \<longrightarrow>
       Forward Student (grad_enabled w) (fst (step_inputs (pad_token_id self) y))
           (snd (step_inputs (pad_token_id self) y))
         \<in> set (trace (snd (distiller_step fwd self batch w))))
   \<and> (batch ''source_ids'' = Some source_ids \<and> batch ''source_mask'' = Some source_mask
        \<and> batch ''target_ids'' = Some y \<longrightarrow>
       Forward Student (grad_enabled w) (fst (step_inputs (pad_token_id self) y))
           (snd (step_inputs (pad_token_id self) y))
         \<in> set (trace (snd (trainer_step fwd self batch w))))"
proof -
  have shapes: "rows (fst (step_inputs pad y)) = rows y"
    "cols (fst (step_inputs pad y)) = cols y - 1"
    "rows (snd (step_inputs pad y)) = rows y" "cols (snd (step_inputs pad y)) = cols y - 1"
    by (simp_all add: step_inputs_fst step_inputs_snd drop_last_column_def tabulate2_def)
  have wf: "wf2 (fst (step_inputs pad y))" "wf2 (snd (step_inputs pad y))"
    by (simp_all add: step_inputs_fst step_inputs_snd drop_last_column_def wf2_tabulate2)
  have entries: "at2 (fst (step_inputs pad y)) r c = at2 y r c
         \<and> at2 (snd (step_inputs pad y)) r c
             = (if at2 y r (c + 1) = pad then - 100 else at2 y r (c + 1))"
    if "r < rows y" "c < cols y - 1" for r c
    using that
    by (simp add: step_inputs_fst step_inputs_snd drop_last_column_def at2_tabulate2
        ignore_padding_def)
  have left: "shifted_left_by_one (ignore_padding pad) y (snd (step_inputs pad y))"
    unfolding shifted_left_by_one_def list_all_iff shapes
    by (simp add: step_inputs_snd at2_tabulate2)
  have distiller: "Forward Student (grad_enabled w) (fst (step_inputs (pad_token_id self) y))
           (snd (step_inputs (pad_token_id self) y))
         \<in> set (trace (snd (distiller_step fwd self batch w)))"
    if "batch ''input_ids'' = Some source_ids" "batch ''attention_mask'' = Some source_mask"
      "batch ''decoder_input_ids'' = Some y"
    using distiller_step_trace[OF that, of fwd self w] by auto
  have trainer: "Forward Student (grad_enabled w) (fst (step_inputs (pad_token_id self) y))
           (snd (step_inputs (pad_token_id self) y))
         \<in> set (trace (snd (trainer_step fwd self batch w)))"
    if "batch ''source_ids'' = Some source_ids" "batch ''source_mask'' = Some source_mask"
      "batch ''target_ids'' = Some y"
    using trainer_step_trace[OF that, of fwd self w] by simp
  from shapes wf entries left distiller trainer show ?thesis by blast
qed

theorem step_inputs_construction_witness:
  "0 < rows \<lparr>rows = 1, cols = 4, elems2 = [0, 5, 1, 1::int]\<rparr>
   \<and> 1 < cols \<lparr>rows = 1, cols = 4, elems2 = [0, 5, 1, 1::int]\<rparr> - 1
   \<and> at2 (fst (step_inputs 1 \<lparr>rows = 1, cols = 4, elems2 = [0, 5, 1, 1]\<rparr>)) 0 1 = 5
   \<and> at2 (snd (step_inputs 1 \<lparr>rows = 1, cols = 4, elems2 = [0, 5, 1, 1]\<rparr>)) 0 1 = - 100
   \<and> fst (step_inputs 1 \<lparr>rows = 1, cols = 4, elems2 = [0, 5, 1, 1]\<rparr>)
       = \<lparr>rows = 1, cols = 3, elems2 = [0, 5, 1]\<rparr>
   \<and> snd (step_inputs 1 \<lparr>rows = 1, cols = 4, elems2 = [0, 5, 1, 1]\<rparr>)
       = \<lparr>rows = 1, cols = 3, elems2 = [5, - 100, - 100]\<rparr>
   \<and> Forward Student True \<lparr>rows = 1, cols = 3, elems2 = [0, 5, 1]\<rparr>
         \<lparr>rows = 1, cols = 3, elems2 = [5, - 100, - 100]\<rparr>
       \<in> set (trace (snd (distiller_step tiny_forward tiny_distiller tiny_batch tiny_world)))
   \<and> Forward Student True \<lparr>rows = 1, cols = 3, elems2 = [0, 5, 1]\<rparr>
         \<lparr>rows = 1, cols = 3, elems2 = [5, - 100, - 100]\<rparr>
       \<in> set (trace (snd (trainer_step tiny_forward tiny_distiller tiny_batch tiny_world)))"
proof -
  let ?y = "\<lparr>rows = 1, cols = 4, elems2 = [0, 5, 1, 1::int]\<rparr>"
  have y_ids: "fst (step_inputs 1 ?y) = \<lparr>rows = 1, cols = 3, elems2 = [0, 5, 1]\<rparr>"
    and lm_labels: "snd (step_inputs 1 ?y) = \<lparr>rows = 1, cols = 3, elems2 = [5, - 100, - 100]\<rparr>"
    by (simp_all add: step_defs upt_small)
  have keys: "tiny_batch ''input_ids'' = Some \<lparr>rows = 1, cols = 2, elems2 = [7, 8]\<rparr>"
    "tiny_batch ''attention_mask'' = Some \<lparr>rows = 1, cols = 2, elems2 = [1, 1]\<rparr>"
    "tiny_batch ''decoder_input_ids'' = Some ?y"
    "tiny_batch ''source_ids'' = Some \<lparr>rows = 1, cols = 2, elems2 = [7, 8]\<rparr>"
    "tiny_batch ''source_mask'' = Some \<lparr>rows = 1, cols = 2, elems2 = [1, 1]\<rparr>"
    "tiny_batch ''target_ids'' = Some ?y"
    by (simp_all add: tiny_batch_def)
  have pad: "pad_token_id tiny_distiller = 1" and grad: "grad_enabled tiny_world = True"
    by (simp_all add: tiny_distiller_def tiny_world_def)
  note c7 = step_inputs_construction[of 1 ?y tiny_batch "\<lparr>rows = 1, cols = 2, elems2 = [7, 8]\<rparr>"
      "\<lparr>rows = 1, cols = 2, elems2 = [1, 1]\<rparr>" tiny_world tiny_distiller tiny_forward]
  have bounds: "0 < rows ?y" "1 < cols ?y - 1"
    by simp_all
  with c7 have "at2 (fst (step_inputs 1 ?y)) 0 1 = at2 ?y 0 1"
    "at2 (snd (step_inputs 1 ?y)) 0 1 = (if at2 ?y 0 (1 + 1) = 1 then - 100 else at2 ?y 0 (1 + 1))"
    by blast+
  then have entries: "at2 (fst (step_inputs 1 ?y)) 0 1 = 5" "at2 (snd (step_inputs 1 ?y)) 0 1 = - 100"
    by (simp_all add: at2_def)
  from c7 keys have "Forward Student (grad_enabled tiny_world)
        (fst (step_inputs (pad_token_id tiny_distiller) ?y))
        (snd (step_inputs (pad_token_id tiny_distiller) ?y))
      \<in> set (trace (snd (distiller_step tiny_forward tiny_distiller tiny_batch tiny_world)))"
    "Forward Student (grad_enabled tiny_world)
        (fst (step_inputs (pad_token_id tiny_distiller) ?y))
        (snd (step_inputs (pad_token_id tiny_distiller) ?y))
      \<in> set (trace (snd (trainer_step tiny_forward tiny_distiller tiny_batch tiny_world)))"
    by blast+
  then have calls: "Forward Student True \<lparr>rows = 1, cols = 3, elems2 = [0, 5, 1]\<rparr>
         \<lparr>rows = 1, cols = 3, elems2 = [5, - 100, - 100]\<rparr>
       \<in> set (trace (snd (distiller_step tiny_forward tiny_distiller tiny_batch tiny_world)))"
    "Forward Student True \<lparr>rows = 1, cols = 3, elems2 = [0, 5, 1]\<rparr>
         \<lparr>rows = 1, cols = 3, elems2 = [5, - 100, - 100]\<rparr>
       \<in> set (trace (snd (trainer_step tiny_forward tiny_distiller tiny_batch tiny_world)))"
    by (simp_all only: pad grad y_ids lm_labels)
  from bounds entries y_ids lm_labels calls show ?thesis by blast
qed

text \<open>
  C7, as stated, fails: for the target ids \<open>[0, 5, 1, 1]\<close> with padding id \<open>1\<close> the
  decoder input \<open>[0, 5, 1]\<close> is not the target shifted left by one position (its
  first entry is the first target id \<open>0\<close>, not the second, \<open>5\<close>), and the labels
  \<open>[5, - 100, - 100]\<close> are not the target shifted right by one position with padding
  ignored (their second entry would be the first target id \<open>0\<close>).
\<close>

theorem step_inputs_shift_counterexample:
  "\<not> shifted_left_by_one (\<lambda>x. x) \<lparr>rows = 1, cols = 4, elems2 = [0, 5, 1, 1]\<rparr>
       (fst (step_inputs 1 \<lparr>rows = 1, cols = 4, elems2 = [0, 5, 1, 1]\<rparr>))
   \<and> \<not> shifted_right_by_one (ignore_padding 1) \<lparr>rows = 1, cols = 4, elems2 = [0, 5, 1, 1]\<rparr>
       (snd (step_inputs 1 \<lparr>rows = 1, cols = 4, elems2 = [0, 5, 1, 1]\<rparr>))"
proof -
  let ?y = "\<lparr>rows = 1, cols = 4, elems2 = [0, 5, 1, 1::int]\<rparr>"
  have y_ids: "fst (step_inputs 1 ?y) = \<lparr>rows = 1, cols = 3, elems2 = [0, 5, 1]\<rparr>"
    and lm_labels: "snd (step_inputs 1 ?y) = \<lparr>rows = 1, cols = 3, elems2 = [5, - 100, - 100]\<rparr>"
    by (simp_all add: step_defs upt_small)
  have "\<not> shifted_left_by_one (\<lambda>x. x) ?y \<lparr>rows = 1, cols = 3, elems2 = [0, 5, 1]\<rparr>"
    by (simp add: shifted_left_by_one_def at2_def upt_small)
  moreover have "\<not> shifted_right_by_one (ignore_padding 1) ?y
      \<lparr>rows = 1, cols = 3, elems2 = [5, - 100, - 100]\<rparr>"
    by (simp add: shifted_right_by_one_def ignore_padding_def at2_def upt_small)
  ultimately show ?thesis
    unfolding y_ids lm_labels by blast
qed

lemma distiller_step_world:
  "params (snd (distiller_step fwd self batch w)) = params w
   \<and> grad_enabled (snd (distiller_step fwd self batch w)) = grad_enabled w
   \<and> storage (snd (distiller_step fwd self batch w)) = storage w"
  by (auto simp: distiller_step_def Let_def log_event_def
      split: option.splits sum.splits prod.splits)

lemma distiller_step_new_events:
  "\<exists>new. trace (snd (distiller_step fwd self batch w)) = trace w @ new
     \<and> (\<forall>e \<in> set new. (\<exists>ids labels. e = Forward Student (grad_enabled w) ids labels)
                       \<or> (\<exists>ids labels. e = Forward Teacher False ids labels))"
  by (auto simp: distiller_step_def Let_def log_event_def
      split: option.splits sum.splits prod.splits)

lemma training_step_world: "snd (training_step fwd self batch w) = snd (distiller_step fwd self batch w)"
  by (auto simp: training_step_def split: prod.splits sum.splits)

text \<open>
  C6. A step of the distiller leaves the parameter store as it found it, so the
  state of every teacher parameter after the step is its state before. The step calls
  the teacher's forward pass only with the gradient mode switched off (every teacher
  call it records ran in mode \<open>False\<close>, whatever the mode of the caller), and it
  restores the caller's gradient mode. The same holds of \<^verbatim>\<open>training_step\<close>.
\<close>

theorem teacher_untouched_by_step:
  "params (snd (distiller_step fwd self batch w)) = params w
   \<and> (\<forall>a \<in> set (parameters (teacher self)).
         params (snd (distiller_step fwd self batch w)) a = params w a)
   \<and> grad_enabled (snd (distiller_step fwd self batch w)) = grad_enabled w
   \<and> take (length (trace w)) (trace (snd (distiller_step fwd self batch w))) = trace w
   \<and> (\<forall>e \<in> set (drop (length (trace w)) (trace (snd (distiller_step fwd self batch w)))).
         \<forall>ids labels. e \<noteq> Forward Teacher True ids labels)
   \<and> (\<forall>e \<in> set (drop (length (trace w)) (trace (snd (distiller_step fwd self batch w)))).
         (\<exists>ids labels. e = Forward Student (grad_enabled w) ids labels)
         \<or> (\<exists>ids labels. e = Forward Teacher False ids labels))
   \<and> snd (training_step fwd self batch w) = snd (distiller_step fwd self batch w)"
proof -
  obtain new where new: "trace (snd (distiller_step fwd self batch w)) = trace w @ new"
    and modes: "\<forall>e \<in> set new. (\<exists>ids labels. e = Forward Student (grad_enabled w) ids labels)
                       \<or> (\<exists>ids labels. e = Forward Teacher False ids labels)"
    using distiller_step_new_events by blast
  from modes have "\<forall>e \<in> set new. \<forall>ids labels. e \<noteq> Forward Teacher True ids labels"
    by auto
  with new modes
  have events: "take (length (trace w)) (trace (snd (distiller_step fwd self batch w))) = trace w"
    "\<forall>e \<in> set (drop (length (trace w)) (trace (snd (distiller_step fwd self batch w)))).
         \<forall>ids labels. e \<noteq> Forward Teacher True ids labels"
    "\<forall>e \<in> set (drop (length (trace w)) (trace (snd (distiller_step fwd self batch w)))).
         (\<exists>ids labels. e = Forward Student (grad_enabled w) ids labels)
         \<or> (\<exists>ids labels. e = Forward Teacher False ids labels)"
    by simp_all
  from distiller_step_world[of fwd self batch w] events training_step_world[of fwd self batch w]
  show ?thesis by simp
qed

theorem teacher_untouched_by_step_witness:
  "0 \<in> set (parameters (teacher tiny_distiller))
   \<and> params (snd (distiller_step tiny_forward tiny_distiller tiny_batch tiny_world)) 0
       = params tiny_world 0
   \<and> grad_enabled tiny_world
   \<and> grad_enabled (snd (distiller_step tiny_forward tiny_distiller tiny_batch tiny_world))
   \<and> trace (snd (distiller_step tiny_forward tiny_distiller tiny_batch tiny_world))
       = [Forward Student True \<lparr>rows = 1, cols = 3, elems2 = [0, 5, 1]\<rparr>
            \<lparr>rows = 1, cols = 3, elems2 = [5, - 100, - 100]\<rparr>,
          Forward Teacher False \<lparr>rows = 1, cols = 3, elems2 = [0, 5, 1]\<rparr>
            \<lparr>rows = 1, cols = 3, elems2 = [5, - 100, - 100]\<rparr>]"
proof -
  have teacher_par: "0 \<in> set (parameters (teacher tiny_distiller))"
    by (simp add: tiny_distiller_def tiny_defs parameters_def)
  have mode: "grad_enabled tiny_world"
    by (simp add: tiny_world_def)
  have events: "trace (snd (distiller_step tiny_forward tiny_distiller tiny_batch tiny_world))
       = [Forward Student True \<lparr>rows = 1, cols = 3, elems2 = [0, 5, 1]\<rparr>
            \<lparr>rows = 1, cols = 3, elems2 = [5, - 100, - 100]\<rparr>,
          Forward Teacher False \<lparr>rows = 1, cols = 3, elems2 = [0, 5, 1]\<rparr>
            \<lparr>rows = 1, cols = 3, elems2 = [5, - 100, - 100]\<rparr>]"
    by (simp add: step_defs tiny_step_defs loss_defs)
  note c6 = teacher_untouched_by_step[of tiny_forward tiny_distiller tiny_batch tiny_world]
  from c6 teacher_par
  have same: "params (snd (distiller_step tiny_forward tiny_distiller tiny_batch tiny_world)) 0
       = params tiny_world 0"
    by blast
  from c6 mode
  have restored: "grad_enabled (snd (distiller_step tiny_forward tiny_distiller tiny_batch tiny_world))"
    by simp
  from teacher_par same mode restored events show ?thesis by blast
qed

section \<open>Properties of the distillation loss\<close>

lemma bidx_in_range: "k < d \<Longrightarrow> bidx d k = k"
  by (auto simp: bidx_def)

lemma index3_bound:
  assumes "i < S" "v < V"
  shows "i * V + v < S * (V::nat)"
proof -
  have "i * V + v < i * V + V" using assms(2) by simp
  also have "\<dots> = Suc i * V" by simp
  also have "\<dots> \<le> S * V" using assms(1) by (intro mult_le_mono1) simp
  finally show ?thesis .
qed

lemma nth_tabulate3:
  assumes "b < B" "i < S" "v < V"
  shows "concat (map (\<lambda>b. concat (map (\<lambda>i. map (f b i) [0..<V]) [0..<S])) [0..<B])
           ! ((b * S + i) * V + v) = f b i v"
proof -
  let ?inner = "\<lambda>b. concat (map (\<lambda>i. map (f b i) [0..<V]) [0..<S])"
  have len: "\<forall>xs \<in> set (map ?inner [0..<B]). length xs = S * V"
    using length_concat_uniform[of "map (\<lambda>i. map (f b' i) [0..<V]) [0..<S]" V for b']
    by auto
  have idx: "(b * S + i) * V + v = b * (S * V) + (i * V + v)"
    by (simp add: algebra_simps)
  have "concat (map ?inner [0..<B]) ! (b * (S * V) + (i * V + v))
          = map ?inner [0..<B] ! b ! (i * V + v)"
    using len assms index3_bound[of i S v V]
    by (intro nth_concat_uniform) auto
  also have "\<dots> = ?inner b ! (i * V + v)"
    using assms(1) by simp
  also have "\<dots> = map (\<lambda>i. map (f b i) [0..<V]) [0..<S] ! i ! v"
    using assms by (intro nth_concat_uniform) auto
  also have "\<dots> = f b i v"
    using assms by simp
  finally show ?thesis by (simp add: idx)
qed

lemma expand_as_aligned:
  assumes "rows m = dim0 s" "cols m = dim1 s"
  shows "\<exists>sel. expand_as m s = Inr sel
           \<and> dim0 sel = dim0 s \<and> dim1 sel = dim1 s \<and> dim2 sel = dim2 s
           \<and> (\<forall>b < dim0 s. \<forall>i < dim1 s. \<forall>v < dim2 s. at3 sel b i v = at2 m b i)"
proof -
  let ?sel = "\<lparr>dim0 = dim0 s, dim1 = dim1 s, dim2 = dim2 s,
                elems3 = concat (map (\<lambda>b. concat (map (\<lambda>i.
                    map (\<lambda>v. at2 m (bidx (rows m) b) (bidx (cols m) i)) [0..<dim2 s])
                  [0..<dim1 s])) [0..<dim0 s])\<rparr>"
  have "expand_as m s = Inr ?sel"
    using assms by (simp add: expand_as_def)
  moreover have "at3 ?sel b i v = at2 m b i" if "b < dim0 s" "i < dim1 s" "v < dim2 s" for b i v
  proof -
    have "at3 ?sel b i v = at2 m (bidx (rows m) b) (bidx (cols m) i)"
      using that by (simp add: at3_def nth_tabulate3)
    also have "\<dots> = at2 m b i"
      using that assms by (simp add: bidx_in_range)
    finally show ?thesis .
  qed
  ultimately show ?thesis by simp
qed

lemma at2_invert_mask:
  assumes "wf2 m" "b < rows m" "i < cols m"
  shows "at2 (invert_mask m) b i = (\<not> at2 m b i)"
proof -
  have "b * cols m + i < rows m * cols m"
    using assms(2,3) by (rule index3_bound)
  then show ?thesis
    using assms(1) by (simp add: at2_def invert_mask_def wf2_def)
qed

lemma concat_map_if:
  "concat (map (\<lambda>v. if c then [f v] else []) vs) = (if c then map f vs else [])"
  by (induction vs) auto

lemma concat_filter_product:
  "concat (map (\<lambda>b. concat (map (\<lambda>i. if P b i then f b i else []) ys)) xs)
     = concat (map (\<lambda>(b, i). f b i) (filter (\<lambda>(b, i). P b i) (List.product xs ys)))"
proof (induction xs)
  case Nil
  show ?case by simp
next
  case (Cons x xs)
  have "concat (map (\<lambda>i. if P x i then f x i else []) ys)
          = concat (map (\<lambda>(b, i). f b i) (filter (\<lambda>(b, i). P b i) (map (Pair x) ys)))"
    by (induction ys) auto
  with Cons.IH show ?case by simp
qed

lemma masked_select_aligned:
  assumes dims: "dim0 sel = dim0 x" "dim1 sel = dim1 x" "dim2 sel = dim2 x"
    and sel: "\<And>b i v. b < dim0 x \<Longrightarrow> i < dim1 x \<Longrightarrow> v < dim2 x \<Longrightarrow> at3 sel b i v = (\<not> at2 m b i)"
  shows "masked_select x sel = Inr (real_token_entries m x)"
proof -
  have inner: "concat (map (\<lambda>v. if at3b sel b i v then [at3b x b i v] else []) [0..<dim2 x])
        = (if \<not> at2 m b i then map (\<lambda>v. at3 x b i v) [0..<dim2 x] else [])"
    if "b < dim0 x" "i < dim1 x" for b i
  proof -
    have "map (\<lambda>v. if at3b sel b i v then [at3b x b i v] else []) [0..<dim2 x]
        = map (\<lambda>v. if \<not> at2 m b i then [at3 x b i v] else []) [0..<dim2 x]"
      using that dims sel by (intro map_cong) (auto simp: at3b_def bidx_in_range)
    then show ?thesis by (simp only: concat_map_if)
  qed
  have "masked_select x sel
      = Inr (concat (map (\<lambda>b. concat (map (\<lambda>i. concat (map (\<lambda>v.
                 if at3b sel b i v then [at3b x b i v] else [])
               [0..<dim2 x])) [0..<dim1 x])) [0..<dim0 x]))"
    using dims by (simp add: masked_select_def bdim_def)
  also have "concat (map (\<lambda>b. concat (map (\<lambda>i. concat (map (\<lambda>v.
                 if at3b sel b i v then [at3b x b i v] else [])
               [0..<dim2 x])) [0..<dim1 x])) [0..<dim0 x])
      = concat (map (\<lambda>b. concat (map (\<lambda>i.
            if \<not> at2 m b i then map (\<lambda>v. at3 x b i v) [0..<dim2 x] else [])
          [0..<dim1 x])) [0..<dim0 x])"
    using inner by (intro arg_cong[where f = concat] map_cong) auto
  also have "\<dots> = real_token_entries m x"
    unfolding real_token_entries_def
    by (rule concat_filter_product)
  finally show ?thesis .
qed

lemma select_logits_aligned:
  assumes "wf2 m" "rows m = dim0 s" "cols m = dim1 s"
    and "dim0 t = dim0 s" "dim1 t = dim1 s" "dim2 t = dim2 s"
  shows "select_logits (Some m) s t = Inr (real_token_entries m s, real_token_entries m t)"
proof -
  have wf: "wf2 (invert_mask m)" "rows (invert_mask m) = dim0 s" "cols (invert_mask m) = dim1 s"
    using assms(1-3) by (simp_all add: wf2_def invert_mask_def)
  from expand_as_aligned[OF wf(2,3)] obtain sel where sel: "expand_as (invert_mask m) s = Inr sel"
    "dim0 sel = dim0 s" "dim1 sel = dim1 s" "dim2 sel = dim2 s"
    "\<And>b i v. b < dim0 s \<Longrightarrow> i < dim1 s \<Longrightarrow> v < dim2 s
        \<Longrightarrow> at3 sel b i v = at2 (invert_mask m) b i"
    by blast
  have real: "at3 sel b i v = (\<not> at2 m b i)" if "b < dim0 s" "i < dim1 s" "v < dim2 s" for b i v
    using that sel(5) at2_invert_mask[OF assms(1)] assms(2,3) by simp
  have "masked_select s sel = Inr (real_token_entries m s)"
    using sel(2-4) real by (intro masked_select_aligned) auto
  moreover have "masked_select t sel = Inr (real_token_entries m t)"
    using sel(2-4) real assms(4-6) by (intro masked_select_aligned) auto
  ultimately show ?thesis
    using sel(1) by (simp add: select_logits_def)
qed

lemma real_token_entries_cong:
  assumes "dim0 x' = dim0 x" "dim1 x' = dim1 x" "dim2 x' = dim2 x"
    and "\<And>b i v. b < dim0 x \<Longrightarrow> i < dim1 x \<Longrightarrow> v < dim2 x \<Longrightarrow> \<not> at2 m b i
           \<Longrightarrow> at3 x' b i v = at3 x b i v"
  shows "real_token_entries m x' = real_token_entries m x"
  unfolding real_token_entries_def assms(1-3)
  using assms(4)
  by (intro arg_cong[where f = concat] map_cong) auto

lemmas tiny_logit_defs = tiny_mask_def tiny_slogits_def tiny_tlogits_def
  tiny_slogits_perturbed_def tiny_tlogits_perturbed_def

text \<open>
  C4. With a padding mask aligned with the logits, \<^verbatim>\<open>calc_ce_loss\<close> inverts the
  mask, expands it over the vocabulary axis and selects from both logit tensors
  exactly the entries at real-token positions. Hence two pairs of student and
  teacher logits of the same shape that agree at every position the mask does not
  mark as padding give the same result, loss and selected tensors alike: the logits
  at padded positions have no influence.
\<close>

theorem padding_has_no_influence:
  assumes mask_aligned: "wf2 m" "rows m = dim0 s" "cols m = dim1 s"
    and teacher_shape: "dim0 t = dim0 s" "dim1 t = dim1 s" "dim2 t = dim2 s"
    and student_shape': "dim0 s' = dim0 s" "dim1 s' = dim1 s" "dim2 s' = dim2 s"
    and teacher_shape': "dim0 t' = dim0 s" "dim1 t' = dim1 s" "dim2 t' = dim2 s"
    and agree: "\<forall>b < dim0 s. \<forall>i < dim1 s. \<not> at2 m b i \<longrightarrow>
        (\<forall>v < dim2 s. at3 s' b i v = at3 s b i v \<and> at3 t' b i v = at3 t b i v)"
  shows "select_logits (Some m) s t = Inr (real_token_entries m s, real_token_entries m t)
         \<and> select_logits (Some m) s' t' = select_logits (Some m) s t
         \<and> calc_ce_loss T (Some m) s' t' = calc_ce_loss T (Some m) s t"
proof -
  have selected: "select_logits (Some m) s t
      = Inr (real_token_entries m s, real_token_entries m t)"
    using mask_aligned teacher_shape by (rule select_logits_aligned)
  have selected': "select_logits (Some m) s' t'
      = Inr (real_token_entries m s', real_token_entries m t')"
    using mask_aligned student_shape' teacher_shape'
    by (intro select_logits_aligned) simp_all
  have "real_token_entries m s' = real_token_entries m s"
    using student_shape' agree by (intro real_token_entries_cong) auto
  moreover have "real_token_entries m t' = real_token_entries m t"
    using teacher_shape teacher_shape' agree by (intro real_token_entries_cong) auto
  ultimately have same: "select_logits (Some m) s' t' = select_logits (Some m) s t"
    using selected selected' by simp
  have "calc_ce_loss T (Some m) s' t' = calc_ce_loss T (Some m) s t"
    unfolding calc_ce_loss_def same student_shape'(3) by (rule refl)
  with selected same show ?thesis by simp
qed

theorem padding_has_no_influence_witness:
  "wf2 tiny_mask \<and> rows tiny_mask = dim0 tiny_slogits \<and> cols tiny_mask = dim1 tiny_slogits
   \<and> at2 tiny_mask 0 1
   \<and> at3 tiny_slogits_perturbed 0 1 0 \<noteq> at3 tiny_slogits 0 1 0
   \<and> at3 tiny_tlogits_perturbed 0 1 0 \<noteq> at3 tiny_tlogits 0 1 0
   \<and> select_logits (Some tiny_mask) tiny_slogits tiny_tlogits = Inr ([0, 0], [2 * ln 3, 0])
   \<and> calc_ce_loss 2 (Some tiny_mask) tiny_slogits_perturbed tiny_tlogits_perturbed
       = calc_ce_loss 2 (Some tiny_mask) tiny_slogits tiny_tlogits"
proof -
  have aligned: "wf2 tiny_mask" "rows tiny_mask = dim0 tiny_slogits"
    "cols tiny_mask = dim1 tiny_slogits"
    by (simp_all add: tiny_logit_defs wf2_def)
  have shapes: "dim0 tiny_tlogits = dim0 tiny_slogits" "dim1 tiny_tlogits = dim1 tiny_slogits"
    "dim2 tiny_tlogits = dim2 tiny_slogits"
    "dim0 tiny_slogits_perturbed = dim0 tiny_slogits"
    "dim1 tiny_slogits_perturbed = dim1 tiny_slogits"
    "dim2 tiny_slogits_perturbed = dim2 tiny_slogits"
    "dim0 tiny_tlogits_perturbed = dim0 tiny_slogits"
    "dim1 tiny_tlogits_perturbed = dim1 tiny_slogits"
    "dim2 tiny_tlogits_perturbed = dim2 tiny_slogits"
    by (simp_all add: tiny_logit_defs)
  have agree: "\<forall>b < dim0 tiny_slogits. \<forall>i < dim1 tiny_slogits. \<not> at2 tiny_mask b i \<longrightarrow>
        (\<forall>v < dim2 tiny_slogits.
           at3 tiny_slogits_perturbed b i v = at3 tiny_slogits b i v
           \<and> at3 tiny_tlogits_perturbed b i v = at3 tiny_tlogits b i v)"
    by (simp add: tiny_logit_defs at2_def at3_def less_Suc_eq numeral_2_eq_2)
  have differ: "at2 tiny_mask 0 1"
    "at3 tiny_slogits_perturbed 0 1 0 \<noteq> at3 tiny_slogits 0 1 0"
    "at3 tiny_tlogits_perturbed 0 1 0 \<noteq> at3 tiny_tlogits 0 1 0"
    by (simp_all add: tiny_logit_defs at2_def at3_def)
  have entries: "real_token_entries tiny_mask tiny_slogits = [0, 0]"
    "real_token_entries tiny_mask tiny_tlogits = [2 * ln 3, 0]"
    by (simp_all add: real_token_entries_def tiny_logit_defs at2_def at3_def upt_small)
  note c4 = padding_has_no_influence[OF aligned shapes agree, of 2]
  from c4 entries have "select_logits (Some tiny_mask) tiny_slogits tiny_tlogits
      = Inr ([0, 0], [2 * ln 3, 0])"
    by simp
  with c4 aligned differ show ?thesis by blast
qed




















end
